theory Spec2Isabelle
  imports Complex_Main "HOL-Library.Sublist"
begin

section \<open>Python values used by both scripts\<close>

text \<open>
  Text is a list of characters. A timestamp is an instant, counted in seconds, so that the
  comparisons the database makes on \<^verbatim>\<open>scheduled_at\<close> are comparisons of integers.
  The scores of a reply are Python integers; the average, a Python float, is a rational.
  The mean of six integers is never half-way between two multiples of one tenth, and it
  is far from such a point compared with the precision of a float: the float that
  \<^verbatim>\<open>round\<close> returns is then the one nearest to the rational computed here, and its
  comparison with the threshold 7.0 gives the same verdict.
\<close>

datatype exn =
    ValueError string
  | KeyError string
  | RequestException string
  | ZeroDivisionError
  | RuntimeError string
  | SystemExit nat

fun digit_char :: "nat \<Rightarrow> char" where
  "digit_char n = char_of (48 + n)"

fun str_nat :: "nat \<Rightarrow> string" where
  "str_nat n = (if n < 10 then [digit_char n] else str_nat (n div 10) @ [digit_char (n mod 10)])"

declare str_nat.simps [simp del]

text \<open>\<^verbatim>\<open>str(exc)\<close>: the message; for a KeyError, the quoted key.\<close>

fun str_exc :: "exn \<Rightarrow> string" where
  "str_exc (ValueError m) = m"
| "str_exc (KeyError k) = [CHR 0x27] @ k @ [CHR 0x27]"
| "str_exc (RequestException m) = m"
| "str_exc ZeroDivisionError = ''division by zero''"
| "str_exc (RuntimeError m) = m"
| "str_exc (SystemExit n) = str_nat n"

text \<open>\<^verbatim>\<open>str.isspace\<close> on one character, for the code points below 256.\<close>

definition py_isspace :: "char \<Rightarrow> bool" where
  "py_isspace c = ((of_char c :: nat) \<in> {9, 10, 11, 12, 13, 28, 29, 30, 31, 32, 133, 160})"

definition py_strip :: "string \<Rightarrow> string" where
  "py_strip s = rev (dropWhile py_isspace (rev (dropWhile py_isspace s)))"

text \<open>Truthiness of \<^verbatim>\<open>d.get(key)\<close> for a text column: absent, null and empty are false.\<close>

fun truthy :: "string option \<Rightarrow> bool" where
  "truthy None = False"
| "truthy (Some s) = (s \<noteq> [])"

text \<open>
  \<^verbatim>\<open>round(x, 1)\<close>: the nearest multiple of one tenth; at a tie the even one, as Python
  has it for a float that is exactly half-way.
\<close>

definition py_round1 :: "rat \<Rightarrow> rat" where
  "py_round1 x =
     (let t = x * 10; f = \<lfloor>t\<rfloor>; d = t - of_int f
      in of_int (if d < 1 / 2 then f else if 1 / 2 < d then f + 1
                 else if even f then f else f + 1) / 10)"

section \<open>The database\<close>

text \<open>
  A row of \<^verbatim>\<open>sprintai_content_calendar\<close>. The scripts name ten columns;
  \<open>cal_other\<close> holds whatever further columns the table has (\<^verbatim>\<open>select("*")\<close>
  returns them all, and no statement of the source names one).
\<close>

record calendar_row =
  cal_id :: string
  cal_client_id :: string
  cal_platform :: string
  post_text :: string
  image_url :: "string option"
  scheduled_at :: int
  status :: string
  status_prev :: "string option"
  qa_score :: "rat option"
  qa_rewritten :: "bool option"
  cal_other :: "(string \<times> string) list"

text \<open>A row of \<^verbatim>\<open>sprintai_clients\<close>, with the columns the quality gate reads.\<close>

record client_row =
  client_id :: string
  name :: "string option"
  city :: "string option"
  state :: "string option"

text \<open>A row of \<^verbatim>\<open>sprintai_social_connections\<close>.\<close>

record connection_row =
  conn_client_id :: string
  conn_platform :: string
  page_id :: string
  access_token :: string

text \<open>
  A row of \<^verbatim>\<open>sprintai_posts\<close>, the publication log. The two inserts of the scheduler
  give different columns; a column an insert does not give is \<open>None\<close>.
\<close>

record publication_row =
  calendar_id :: string
  pub_client_id :: string
  pub_platform :: string
  external_post_id :: "string option"
  posted_at :: "int option"
  error_message :: "string option"

text \<open>A row of \<^verbatim>\<open>sprintai_qa_log\<close>.\<close>

record qa_log_row =
  log_client_id :: string
  log_calendar_id :: string
  log_platform :: string
  score_hook :: "int option"
  score_local :: "int option"
  score_value :: "int option"
  score_cta :: "int option"
  score_platform :: "int option"
  score_authenticity :: "int option"
  score_average :: rat
  log_verdict :: string
  log_issues :: "string list"
  was_rewritten :: bool

text \<open>The payload of an update of the calendar: the columns it sets.\<close>

record calendar_update =
  upd_status :: "string option"
  upd_status_prev :: "string option"
  upd_qa_score :: "rat option"
  upd_qa_rewritten :: "bool option"
  upd_post_text :: "string option"

text \<open>The body of a form or JSON request and of a JSON reply: fields with text values.\<close>

type_synonym fields = "(string \<times> string) list"

record http_request =
  url :: string
  body :: fields
  bearer :: "string option"

text \<open>What the scoring call sends: the values the two prompts are built from.\<close>

record qa_request =
  req_rubric :: string
  req_platform_label :: string
  req_company_name :: string
  req_city :: string
  req_post_text :: string

text \<open>
  Everything the scripts do to the outside, in the order it happens: HTTP requests to the
  platforms, calls of the scoring model, and writes to the database.
\<close>

datatype effect =
    Http_post http_request
  | Llm_post qa_request
  | Calendar_update calendar_update string
  | Posts_insert publication_row
  | Qa_log_insert qa_log_row

record world =
  clients :: "client_row list"
  calendar :: "calendar_row list"
  connections :: "connection_row list"
  posts :: "publication_row list"
  qa_log :: "qa_log_row list"
  effects :: "effect list"

fun is_http :: "effect \<Rightarrow> bool" where
  "is_http (Http_post _) = True"
| "is_http _ = False"

fun is_llm :: "effect \<Rightarrow> bool" where
  "is_llm (Llm_post _) = True"
| "is_llm _ = False"

definition http_calls :: "world \<Rightarrow> nat" where
  "http_calls w = length (filter is_http (effects w))"

definition llm_calls :: "world \<Rightarrow> nat" where
  "llm_calls w = length (filter is_llm (effects w))"

definition apply_update :: "calendar_update \<Rightarrow> calendar_row \<Rightarrow> calendar_row" where
  "apply_update u r =
     r\<lparr>status := (case upd_status u of None \<Rightarrow> status r | Some s \<Rightarrow> s),
       status_prev := (case upd_status_prev u of None \<Rightarrow> status_prev r | Some s \<Rightarrow> Some s),
       qa_score := (case upd_qa_score u of None \<Rightarrow> qa_score r | Some q \<Rightarrow> Some q),
       qa_rewritten := (case upd_qa_rewritten u of None \<Rightarrow> qa_rewritten r | Some b \<Rightarrow> Some b),
       post_text := (case upd_post_text u of None \<Rightarrow> post_text r | Some t \<Rightarrow> t)\<rparr>"

text \<open>\<^verbatim>\<open>sb.table("sprintai_content_calendar").update(u).eq("id", i).execute()\<close>\<close>

definition update_calendar :: "calendar_update \<Rightarrow> string \<Rightarrow> world \<Rightarrow> world" where
  "update_calendar u i w =
     w\<lparr>calendar := map (\<lambda>r. if cal_id r = i then apply_update u r else r) (calendar w),
       effects := effects w @ [Calendar_update u i]\<rparr>"

definition insert_post :: "publication_row \<Rightarrow> world \<Rightarrow> world" where
  "insert_post row w = w\<lparr>posts := posts w @ [row], effects := effects w @ [Posts_insert row]\<rparr>"

definition insert_qa_log :: "qa_log_row \<Rightarrow> world \<Rightarrow> world" where
  "insert_qa_log row w = w\<lparr>qa_log := qa_log w @ [row], effects := effects w @ [Qa_log_insert row]\<rparr>"

definition no_update :: calendar_update where
  "no_update = \<lparr>upd_status = None, upd_status_prev = None, upd_qa_score = None,
                 upd_qa_rewritten = None, upd_post_text = None\<rparr>"

section \<open>content\_qa.py: the quality gate\<close>

definition APPROVAL_THRESHOLD :: rat where
  "APPROVAL_THRESHOLD = 7"

definition PLATFORM_LABELS :: "(string \<times> string) list" where
  "PLATFORM_LABELS =
     [(''facebook'', ''Facebook''),
      (''instagram'', ''Instagram''),
      (''google_business'', ''Google Business Profile (GBP)'')]"

text \<open>\<^verbatim>\<open>d.get(key, default)\<close> on a dictionary given as its items.\<close>

definition dict_get :: "('k \<times> 'v) list \<Rightarrow> 'k \<Rightarrow> 'v \<Rightarrow> 'v" where
  "dict_get d k dflt = (case map_of d k of None \<Rightarrow> dflt | Some v \<Rightarrow> v)"

definition get_client_record :: "world \<Rightarrow> string \<Rightarrow> exn + client_row" where
  "get_client_record w cid =
     (case filter (\<lambda>c. client_id c = cid) (clients w) of
        [] \<Rightarrow> Inl (ValueError (''Client '' @ cid @ '' not found.''))
      | c # _ \<Rightarrow> Inr c)"

text \<open>
  The month is given as its year and its number; \<open>month_start y m\<close> is the instant the
  text \<^verbatim>\<open>y-m-01T00:00:00+00:00\<close> denotes for the database.
\<close>

definition get_draft_posts ::
  "(nat \<Rightarrow> nat \<Rightarrow> int) \<Rightarrow> world \<Rightarrow> string \<Rightarrow> nat \<Rightarrow> nat \<Rightarrow> calendar_row list" where
  "get_draft_posts month_start w cid year mon =
     (let start = month_start year mon;
          next_month = mon + 1;
          next_year = year;
          (next_month, next_year) =
             (if next_month > 12 then (1, next_year + 1) else (next_month, next_year));
          end = month_start next_year next_month
      in sort_key scheduled_at
           (filter (\<lambda>r. cal_client_id r = cid \<and> status r = ''draft'' \<and>
                        start \<le> scheduled_at r \<and> scheduled_at r < end) (calendar w)))"

text \<open>
  \<^verbatim>\<open>build_qa_prompt\<close>: the two prompts are fixed text around the rubric, the platform label,
  the company name, the city and the text of the post; the model keeps those five values.
\<close>

definition build_qa_prompt :: "calendar_row \<Rightarrow> client_row \<Rightarrow> string \<Rightarrow> qa_request" where
  "build_qa_prompt post client rubric =
     (let platform_label = dict_get PLATFORM_LABELS (cal_platform post) (cal_platform post);
          company_name = (case name client of None \<Rightarrow> ''Unknown Company'' | Some n \<Rightarrow> n);
          city = (case city client of
                    None \<Rightarrow> (case state client of None \<Rightarrow> ''their local area'' | Some s \<Rightarrow> s)
                  | Some c \<Rightarrow> c)
      in \<lparr>req_rubric = rubric, req_platform_label = platform_label,
          req_company_name = company_name, req_city = city,
          req_post_text = post_text post\<rparr>)"

text \<open>
  The reply of the scoring model once \<^verbatim>\<open>json.loads\<close> has read it: a dictionary in which
  each of the five keys may be missing, and a key that is there has a value of the type
  the prompt asks for.
\<close>

record qa_dict =
  scores :: "(string \<times> int) list option"
  average :: "rat option"
  verdict :: "string option"
  issues :: "string list option"
  improved_version :: "string option"

text \<open>
  The two \<^verbatim>\<open>re.sub\<close> calls that remove a Markdown code fence around the reply: the
  first removes \<^verbatim>\<open>^```(?:json)?\n?\<close>, the second \<^verbatim>\<open>\n?```$\<close>. The text they are given has
  been stripped, so it ends with no line feed and \<^verbatim>\<open>$\<close> is its end.
\<close>

definition strip_fences :: "string \<Rightarrow> string" where
  "strip_fences raw =
     (let raw1 =
            (if prefix ''```'' raw then
               (let a = drop 3 raw;
                    b = (if prefix ''json'' a then drop 4 a else a)
                in if prefix [CHR 0x0A] b then drop 1 b else b)
             else raw)
      in if suffix (CHR 0x0A # ''```'') raw1 then take (length raw1 - 4) raw1
         else if suffix ''```'' raw1 then take (length raw1 - 3) raw1
         else raw1)"

text \<open>The text \<^verbatim>\<open>json.loads\<close> is given: the reply, stripped and without its fence.\<close>

definition reply_json_text :: "string \<Rightarrow> string" where
  "reply_json_text text =
     (let raw = py_strip text in if prefix ''```'' raw then strip_fences raw else raw)"

text \<open>
  The body of the \<^verbatim>\<open>try\<close> of \<^verbatim>\<open>call_claude_qa\<close> after the request: \<open>reply\<close> is the text
  \<^verbatim>\<open>r.json()["content"][0]["text"]\<close>, or the exception raised on the way to it. The
  message of the ValueError also lists the keys of the reply; it is only printed.
\<close>

definition qa_attempt :: "(string \<Rightarrow> exn + qa_dict) \<Rightarrow> exn + string \<Rightarrow> exn + qa_dict" where
  "qa_attempt json_loads reply =
     (case reply of
        Inl exc \<Rightarrow> Inl exc
      | Inr text \<Rightarrow>
          (case json_loads (reply_json_text text) of
             Inl exc \<Rightarrow> Inl exc
           | Inr result \<Rightarrow>
                  if scores result = None \<or> average result = None \<or> verdict result = None \<or>
                     issues result = None \<or> improved_version result = None
                  then Inl (ValueError ''Missing keys in QA response'')
                  else
                    (case scores result of
                       None \<Rightarrow> Inl (KeyError ''scores'')
                     | Some sc \<Rightarrow>
                         if length sc = 0 then Inl ZeroDivisionError
                         else
                           (let avg = py_round1 (of_int (sum_list (map snd sc)) / of_int (length sc))
                            in Inr (result\<lparr>average := Some avg,
                                     verdict := Some (if avg \<ge> APPROVAL_THRESHOLD
                                                      then ''APPROVED'' else ''REWRITE'')\<rparr>)))))"

text \<open>
  The loop \<^verbatim>\<open>for attempt in range(retries + 1)\<close>; the last argument but one is
  \<^verbatim>\<open>retries - attempt\<close>, the retries that are left. The \<open>n\<close>-th call of the scoring
  model, whatever asks for it, is answered by \<open>llm n\<close>.
\<close>

fun call_claude_qa_from ::
  "(nat \<Rightarrow> qa_request \<Rightarrow> exn + string) \<Rightarrow> (string \<Rightarrow> exn + qa_dict) \<Rightarrow> qa_request \<Rightarrow>
   nat \<Rightarrow> nat \<Rightarrow> world \<Rightarrow> (exn + qa_dict) \<times> world" where
  "call_claude_qa_from llm json_loads req retries 0 w =
     (let reply = llm (llm_calls w) req;
          w' = w\<lparr>effects := effects w @ [Llm_post req]\<rparr>
      in case qa_attempt json_loads reply of
           Inr result \<Rightarrow> (Inr result, w')
         | Inl exc \<Rightarrow>
             (Inl (RuntimeError (''QA call failed after '' @ str_nat (retries + 1) @
                                 '' attempts: '' @ str_exc exc)), w'))"
| "call_claude_qa_from llm json_loads req retries (Suc left) w =
     (let reply = llm (llm_calls w) req;
          w' = w\<lparr>effects := effects w @ [Llm_post req]\<rparr>
      in case qa_attempt json_loads reply of
           Inr result \<Rightarrow> (Inr result, w')
         | Inl exc \<Rightarrow> call_claude_qa_from llm json_loads req retries left w')"

definition call_claude_qa ::
  "(nat \<Rightarrow> qa_request \<Rightarrow> exn + string) \<Rightarrow> (string \<Rightarrow> exn + qa_dict) \<Rightarrow> qa_request \<Rightarrow>
   nat \<Rightarrow> world \<Rightarrow> (exn + qa_dict) \<times> world" where
  "call_claude_qa llm json_loads req retries w =
     call_claude_qa_from llm json_loads req retries retries w"

definition apply_qa_result :: "calendar_row \<Rightarrow> qa_dict \<Rightarrow> bool \<Rightarrow> world \<Rightarrow> exn + world" where
  "apply_qa_result post qa dry_run w =
     (case verdict qa of
        None \<Rightarrow> Inl (KeyError ''verdict'')
      | Some vd \<Rightarrow>
          (let rewritten = (vd = ''REWRITE'' \<and>
                 py_strip (case improved_version qa of None \<Rightarrow> [] | Some t \<Rightarrow> t) \<noteq> [])
           in case (if rewritten
                    then (case improved_version qa of
                            None \<Rightarrow> Inl (KeyError ''improved_version'')
                          | Some t \<Rightarrow> Inr (py_strip t))
                    else Inr (post_text post)) of
                Inl exc \<Rightarrow> Inl exc
              | Inr new_text \<Rightarrow>
                  (case scores qa of
                     None \<Rightarrow> Inl (KeyError ''scores'')
                   | Some sc \<Rightarrow>
                       if dry_run then Inr w
                       else
                         (case average qa of
                            None \<Rightarrow> Inl (KeyError ''average'')
                          | Some avg \<Rightarrow>
                              (let update_payload =
                                     \<lparr>upd_status = Some ''pending'',
                                      upd_status_prev = Some ''draft'',
                                      upd_qa_score = Some avg,
                                      upd_qa_rewritten = Some rewritten,
                                      upd_post_text = (if rewritten then Some new_text else None)\<rparr>;
                                   w1 = update_calendar update_payload (cal_id post) w;
                                   log_row =
                                     \<lparr>log_client_id = cal_client_id post,
                                      log_calendar_id = cal_id post,
                                      log_platform = cal_platform post,
                                      score_hook = map_of sc ''hook_strength'',
                                      score_local = map_of sc ''local_specificity'',
                                      score_value = map_of sc ''value_delivery'',
                                      score_cta = map_of sc ''cta_clarity'',
                                      score_platform = map_of sc ''platform_fit'',
                                      score_authenticity = map_of sc ''authenticity'',
                                      score_average = avg,
                                      log_verdict = vd,
                                      log_issues = (case issues qa of None \<Rightarrow> [] | Some l \<Rightarrow> l),
                                      was_rewritten = rewritten\<rparr>
                               in Inr (insert_qa_log log_row w1))))))"

text \<open>The statistics \<^verbatim>\<open>main\<close> keeps while it reviews.\<close>

record qa_stats =
  results :: "(calendar_row \<times> qa_dict) list"
  approved_count :: nat
  rewritten_count :: nat
  total_score :: rat
  lowest_score :: rat
  lowest_preview :: string

definition preview :: "nat \<Rightarrow> string \<Rightarrow> string" where
  "preview n t = map (\<lambda>c. if c = CHR 0x0A then CHR '' '' else c) (take n t)"

text \<open>The loop \<^verbatim>\<open>for i, post in enumerate(posts, 1)\<close> of \<^verbatim>\<open>main\<close>.\<close>

fun review_loop ::
  "(nat \<Rightarrow> qa_request \<Rightarrow> exn + string) \<Rightarrow> (string \<Rightarrow> exn + qa_dict) \<Rightarrow> client_row \<Rightarrow> string \<Rightarrow>
   bool \<Rightarrow> calendar_row list \<Rightarrow> qa_stats \<Rightarrow> world \<Rightarrow> (exn + qa_stats) \<times> world" where
  "review_loop llm json_loads client rubric dry_run [] st w = (Inr st, w)"
| "review_loop llm json_loads client rubric dry_run (post # rest) st w =
     (case call_claude_qa llm json_loads (build_qa_prompt post client rubric) 2 w of
        (Inl exc, w1) \<Rightarrow> review_loop llm json_loads client rubric dry_run rest st w1
      | (Inr qa, w1) \<Rightarrow>
          (case average qa of
             None \<Rightarrow> (Inl (KeyError ''average''), w1)
           | Some avg \<Rightarrow>
               (case verdict qa of
                  None \<Rightarrow> (Inl (KeyError ''verdict''), w1)
                | Some vd \<Rightarrow>
                    (let st1 = st\<lparr>total_score := total_score st + avg\<rparr>;
                         st2 = (if vd = ''APPROVED''
                                then st1\<lparr>approved_count := approved_count st1 + 1\<rparr>
                                else st1\<lparr>rewritten_count := rewritten_count st1 + 1\<rparr>);
                         st3 = (if avg < lowest_score st2
                                then st2\<lparr>lowest_score := avg,
                                         lowest_preview := preview 80 (post_text post)\<rparr>
                                else st2)
                     in case apply_qa_result post qa dry_run w1 of
                          Inl exc \<Rightarrow> (Inl exc, w1)
                        | Inr w2 \<Rightarrow>
                            review_loop llm json_loads client rubric dry_run rest
                              (st3\<lparr>results := results st3 @ [(post, qa)]\<rparr>) w2))))"

definition initial_stats :: qa_stats where
  "initial_stats = \<lparr>results = [], approved_count = 0, rewritten_count = 0,
                     total_score = 0, lowest_score = 11, lowest_preview = []\<rparr>"

text \<open>\<^verbatim>\<open>main\<close>, from the reading of the client on; the arguments are already parsed.\<close>

definition main ::
  "(nat \<Rightarrow> qa_request \<Rightarrow> exn + string) \<Rightarrow> (string \<Rightarrow> exn + qa_dict) \<Rightarrow> (nat \<Rightarrow> nat \<Rightarrow> int) \<Rightarrow>
   string \<Rightarrow> string \<Rightarrow> nat \<Rightarrow> nat \<Rightarrow> bool \<Rightarrow> world \<Rightarrow> (exn + qa_stats) \<times> world" where
  "main llm json_loads month_start rubric cid year mon dry_run w =
     (case get_client_record w cid of
        Inl exc \<Rightarrow> (Inl exc, w)
      | Inr client \<Rightarrow>
          (let posts = get_draft_posts month_start w cid year mon
           in if posts = [] then (Inl (SystemExit 0), w)
              else review_loop llm json_loads client rubric dry_run posts initial_stats w))"


section \<open>post\_scheduler.py: the publish dispatcher\<close>

text \<open>
  What \<^verbatim>\<open>requests.post\<close> meets: the request raises (a timeout, a refused connection),
  with its message, or a response comes back. A response has its status code, the message
  \<^verbatim>\<open>raise_for_status\<close> raises with when the status is an error, and its body read as a
  JSON object, or the message of the exception that reading it raises.
\<close>

record http_response =
  status_code :: nat
  http_error_text :: string
  json :: "string + fields"

datatype http_result = Transport_failure string | Response http_response

text \<open>The \<open>n\<close>-th request of a run, whatever it asks, is answered by \<open>net n\<close>.\<close>

definition requests_post ::
  "(nat \<Rightarrow> http_request \<Rightarrow> http_result) \<Rightarrow> http_request \<Rightarrow> world \<Rightarrow>
   (exn + http_response) \<times> world" where
  "requests_post net req w =
     (let w' = w\<lparr>effects := effects w @ [Http_post req]\<rparr>
      in case net (http_calls w) req of
           Transport_failure m \<Rightarrow> (Inl (RequestException m), w')
         | Response r \<Rightarrow> (Inr r, w'))"

definition raise_for_status :: "http_response \<Rightarrow> exn + unit" where
  "raise_for_status r =
     (if 400 \<le> status_code r \<and> status_code r < 600
      then Inl (RequestException (http_error_text r)) else Inr ())"

text \<open>\<^verbatim>\<open>r.raise_for_status()\<close> followed by \<^verbatim>\<open>r.json()\<close>.\<close>

definition checked_json :: "http_response \<Rightarrow> exn + fields" where
  "checked_json r =
     (case raise_for_status r of
        Inl exc \<Rightarrow> Inl exc
      | Inr _ \<Rightarrow> (case json r of Inl m \<Rightarrow> Inl (RequestException m) | Inr data \<Rightarrow> Inr data))"

definition get_pending_posts :: "(nat \<Rightarrow> int) \<Rightarrow> world \<Rightarrow> calendar_row list" where
  "get_pending_posts clock w =
     (let now = clock (length (effects w))
      in filter (\<lambda>r. status r = ''pending'' \<and> scheduled_at r \<le> now) (calendar w))"

definition get_connection :: "world \<Rightarrow> string \<Rightarrow> string \<Rightarrow> connection_row option" where
  "get_connection w cid platform =
     (case filter (\<lambda>c. conn_client_id c = cid \<and> conn_platform c = platform) (connections w) of
        [] \<Rightarrow> None
      | c # _ \<Rightarrow> Some c)"

text \<open>The clock is read as a function of how much has happened so far.\<close>

definition mark_posted ::
  "(nat \<Rightarrow> int) \<Rightarrow> string \<Rightarrow> string \<Rightarrow> string \<Rightarrow> string \<Rightarrow> world \<Rightarrow> world" where
  "mark_posted clock cal cid platform ext_id w =
     (let now = clock (length (effects w));
          w1 = update_calendar (no_update\<lparr>upd_status := Some ''posted''\<rparr>) cal w
      in insert_post
           \<lparr>calendar_id = cal, pub_client_id = cid, pub_platform = platform,
            external_post_id = Some ext_id, posted_at = Some now, error_message = None\<rparr> w1)"

definition mark_failed :: "string \<Rightarrow> string \<Rightarrow> string \<Rightarrow> string \<Rightarrow> world \<Rightarrow> world" where
  "mark_failed cal cid platform error w =
     (let w1 = update_calendar (no_update\<lparr>upd_status := Some ''failed''\<rparr>) cal w
      in insert_post
           \<lparr>calendar_id = cal, pub_client_id = cid, pub_platform = platform,
            external_post_id = None, posted_at = None,
            error_message = Some (take 2000 error)\<rparr> w1)"

definition post_facebook ::
  "(nat \<Rightarrow> http_request \<Rightarrow> http_result) \<Rightarrow> calendar_row \<Rightarrow> connection_row \<Rightarrow> world \<Rightarrow>
   (exn + string) \<times> world" where
  "post_facebook net post connection w =
     (let page = page_id connection;
          page_token = access_token connection;
          payload = [(''message'', post_text post), (''access_token'', page_token)];
          req = (case image_url post of
                   None \<Rightarrow>
                     \<lparr>url = ''https://graph.facebook.com/v19.0/'' @ page @ ''/feed'',
                      body = payload, bearer = None\<rparr>
                 | Some u \<Rightarrow>
                     if u \<noteq> [] then
                       \<lparr>url = ''https://graph.facebook.com/v19.0/'' @ page @ ''/photos'',
                        body = [(''url'', u), (''caption'', post_text post),
                                (''access_token'', page_token)],
                        bearer = None\<rparr>
                     else
                       \<lparr>url = ''https://graph.facebook.com/v19.0/'' @ page @ ''/feed'',
                        body = payload, bearer = None\<rparr>)
      in case requests_post net req w of
           (Inl exc, w1) \<Rightarrow> (Inl exc, w1)
         | (Inr r, w1) \<Rightarrow>
             (case checked_json r of
                Inl exc \<Rightarrow> (Inl exc, w1)
              | Inr data \<Rightarrow>
                  (Inr (if truthy (map_of data ''post_id'')
                        then dict_get data ''post_id'' []
                        else dict_get data ''id'' ''unknown''), w1)))"

definition post_instagram ::
  "(nat \<Rightarrow> http_request \<Rightarrow> http_result) \<Rightarrow> calendar_row \<Rightarrow> connection_row \<Rightarrow> world \<Rightarrow>
   (exn + string) \<times> world" where
  "post_instagram net post connection w =
     (let ig_user_id = page_id connection;
          page_token = access_token connection
      in case image_url post of
           None \<Rightarrow> (Inl (ValueError ''Instagram posts require an image_url.''), w)
         | Some img \<Rightarrow>
             if img = [] then (Inl (ValueError ''Instagram posts require an image_url.''), w)
             else
               (case requests_post net
                       \<lparr>url = ''https://graph.facebook.com/v19.0/'' @ ig_user_id @ ''/media'',
                        body = [(''image_url'', img), (''caption'', post_text post),
                                (''access_token'', page_token)],
                        bearer = None\<rparr> w of
                  (Inl exc, w1) \<Rightarrow> (Inl exc, w1)
                | (Inr r, w1) \<Rightarrow>
                    (case checked_json r of
                       Inl exc \<Rightarrow> (Inl exc, w1)
                     | Inr data \<Rightarrow>
                         (case map_of data ''id'' of
                            None \<Rightarrow> (Inl (KeyError ''id''), w1)
                          | Some creation_id \<Rightarrow>
                              (case requests_post net
                                      \<lparr>url = ''https://graph.facebook.com/v19.0/'' @ ig_user_id @
                                             ''/media_publish'',
                                       body = [(''creation_id'', creation_id),
                                               (''access_token'', page_token)],
                                       bearer = None\<rparr> w1 of
                                 (Inl exc, w2) \<Rightarrow> (Inl exc, w2)
                               | (Inr r2, w2) \<Rightarrow>
                                   (case checked_json r2 of
                                      Inl exc \<Rightarrow> (Inl exc, w2)
                                    | Inr data2 \<Rightarrow>
                                        (Inr (dict_get data2 ''id'' creation_id), w2)))))))"

definition refresh_google_token ::
  "(nat \<Rightarrow> http_request \<Rightarrow> http_result) \<Rightarrow> (string \<Rightarrow> string option) \<Rightarrow> string \<Rightarrow> world \<Rightarrow>
   (exn + string) \<times> world" where
  "refresh_google_token net environ refresh_token w =
     (case environ ''GOOGLE_CLIENT_ID'' of
        None \<Rightarrow> (Inl (KeyError ''GOOGLE_CLIENT_ID''), w)
      | Some google_id \<Rightarrow>
          (case environ ''GOOGLE_CLIENT_SECRET'' of
             None \<Rightarrow> (Inl (KeyError ''GOOGLE_CLIENT_SECRET''), w)
           | Some google_secret \<Rightarrow>
               (case requests_post net
                       \<lparr>url = ''https://oauth2.googleapis.com/token'',
                        body = [(''grant_type'', ''refresh_token''),
                                (''refresh_token'', refresh_token),
                                (''client_id'', google_id),
                                (''client_secret'', google_secret)],
                        bearer = None\<rparr> w of
                  (Inl exc, w1) \<Rightarrow> (Inl exc, w1)
                | (Inr r, w1) \<Rightarrow>
                    (case checked_json r of
                       Inl exc \<Rightarrow> (Inl exc, w1)
                     | Inr data \<Rightarrow>
                         (case map_of data ''access_token'' of
                            None \<Rightarrow> (Inl (KeyError ''access_token''), w1)
                          | Some token \<Rightarrow> (Inr token, w1))))))"

text \<open>
  The JSON body of the local post is given as fields; the one entry of its \<^verbatim>\<open>media\<close>
  list is given by the two fields \<^verbatim>\<open>media[0].mediaFormat\<close> and \<^verbatim>\<open>media[0].sourceUrl\<close>.
\<close>

definition post_google_business ::
  "(nat \<Rightarrow> http_request \<Rightarrow> http_result) \<Rightarrow> (string \<Rightarrow> string option) \<Rightarrow> calendar_row \<Rightarrow>
   connection_row \<Rightarrow> world \<Rightarrow> (exn + string) \<times> world" where
  "post_google_business net environ post connection w =
     (let location_name = page_id connection
      in case refresh_google_token net environ (access_token connection) w of
           (Inl exc, w1) \<Rightarrow> (Inl exc, w1)
         | (Inr token, w1) \<Rightarrow>
             (let body0 = [(''languageCode'', ''en-US''), (''summary'', post_text post),
                           (''topicType'', ''STANDARD'')];
                  body1 = (case image_url post of
                             None \<Rightarrow> body0
                           | Some u \<Rightarrow>
                               if u \<noteq> [] then
                                 body0 @ [(''media[0].mediaFormat'', ''PHOTO''),
                                          (''media[0].sourceUrl'', u)]
                               else body0)
              in case requests_post net
                        \<lparr>url = ''https://mybusiness.googleapis.com/v4/'' @ location_name @
                               ''/localPosts'',
                         body = body1, bearer = Some token\<rparr> w1 of
                   (Inl exc, w2) \<Rightarrow> (Inl exc, w2)
                 | (Inr r, w2) \<Rightarrow>
                     (case checked_json r of
                        Inl exc \<Rightarrow> (Inl exc, w2)
                      | Inr data \<Rightarrow> (Inr (dict_get data ''name'' ''unknown''), w2))))"

type_synonym handler = "calendar_row \<Rightarrow> connection_row \<Rightarrow> world \<Rightarrow> (exn + string) \<times> world"

definition PLATFORM_HANDLERS ::
  "(nat \<Rightarrow> http_request \<Rightarrow> http_result) \<Rightarrow> (string \<Rightarrow> string option) \<Rightarrow>
   (string \<times> handler) list" where
  "PLATFORM_HANDLERS net environ =
     [(''facebook'', post_facebook net),
      (''instagram'', post_instagram net),
      (''google_business'', post_google_business net environ)]"

record counts =
  success :: nat
  failed :: nat
  skipped :: nat

text \<open>The loop \<^verbatim>\<open>for post in pending\<close> of \<^verbatim>\<open>run\<close>.\<close>

fun run_loop ::
  "(nat \<Rightarrow> http_request \<Rightarrow> http_result) \<Rightarrow> (string \<Rightarrow> string option) \<Rightarrow> (nat \<Rightarrow> int) \<Rightarrow>
   calendar_row list \<Rightarrow> counts \<Rightarrow> world \<Rightarrow> counts \<times> world" where
  "run_loop net environ clock [] c w = (c, w)"
| "run_loop net environ clock (post # rest) c w =
     (let cal = cal_id post;
          cid = cal_client_id post;
          platform = cal_platform post
      in case map_of (PLATFORM_HANDLERS net environ) platform of
           None \<Rightarrow> run_loop net environ clock rest (c\<lparr>skipped := skipped c + 1\<rparr>) w
         | Some handler \<Rightarrow>
             (case get_connection w cid platform of
                None \<Rightarrow>
                  (let err = ''No '' @ platform @ '' connection found for client '' @ cid
                   in run_loop net environ clock rest (c\<lparr>failed := failed c + 1\<rparr>)
                        (mark_failed cal cid platform err w))
              | Some connection \<Rightarrow>
                  (case handler post connection w of
                     (Inr post_id, w1) \<Rightarrow>
                       run_loop net environ clock rest (c\<lparr>success := success c + 1\<rparr>)
                         (mark_posted clock cal cid platform post_id w1)
                   | (Inl exc, w1) \<Rightarrow>
                       run_loop net environ clock rest (c\<lparr>failed := failed c + 1\<rparr>)
                         (mark_failed cal cid platform (str_exc exc) w1))))"

text \<open>\<^verbatim>\<open>run\<close>: the counts it prints at the end, none when nothing is pending.\<close>

definition run ::
  "(nat \<Rightarrow> http_request \<Rightarrow> http_result) \<Rightarrow> (string \<Rightarrow> string option) \<Rightarrow> (nat \<Rightarrow> int) \<Rightarrow>
   world \<Rightarrow> counts option \<times> world" where
  "run net environ clock w =
     (let pending = get_pending_posts clock w
      in if pending = [] then (None, w)
         else (case run_loop net environ clock pending
                      \<lparr>success = 0, failed = 0, skipped = 0\<rparr> w of
                 (c, w') \<Rightarrow> (Some c, w')))"


section \<open>Observations\<close>

text \<open>The effects that write to the database, and the calendar a call leaves.\<close>

fun is_write :: "effect \<Rightarrow> bool" where
  "is_write (Calendar_update _ _) = True"
| "is_write (Posts_insert _) = True"
| "is_write (Qa_log_insert _) = True"
| "is_write _ = False"

definition calendar_after :: "exn + world \<Rightarrow> calendar_row list" where
  "calendar_after r = (case r of Inl _ \<Rightarrow> [] | Inr w \<Rightarrow> calendar w)"

text \<open>
  \<open>http_only w w'\<close>: from \<open>w\<close> to \<open>w'\<close> nothing happened but HTTP requests.
  \<open>dispatch_one\<close> is one turn of the loop of \<^verbatim>\<open>run\<close>.
\<close>

definition http_only :: "world \<Rightarrow> world \<Rightarrow> bool" where
  "http_only w w' =
     (w' = w\<lparr>effects := effects w'\<rparr> \<and>
      take (length (effects w)) (effects w') = effects w \<and>
      list_all is_http (drop (length (effects w)) (effects w')))"

definition dispatch_one ::
  "(nat \<Rightarrow> http_request \<Rightarrow> http_result) \<Rightarrow> (string \<Rightarrow> string option) \<Rightarrow> (nat \<Rightarrow> int) \<Rightarrow>
   calendar_row \<Rightarrow> counts \<Rightarrow> world \<Rightarrow> counts \<times> world" where
  "dispatch_one net environ clock post c w = run_loop net environ clock [post] c w"



section \<open>Concrete inputs\<close>

definition example_reply :: qa_dict where
  "example_reply =
     \<lparr>scores = Some [(''hook_strength'', 7), (''local_specificity'', 7), (''value_delivery'', 7),
                     (''cta_clarity'', 7), (''platform_fit'', 7), (''authenticity'', 6)],
      average = Some (19 / 2), verdict = Some ''APPROVED'', issues = Some [],
      improved_version = Some ''Beat the heat''\<rparr>"

definition empty_world :: world where
  "empty_world = \<lparr>clients = [], calendar = [], connections = [], posts = [], qa_log = [],
                    effects = []\<rparr>"

definition acme :: client_row where
  "acme = \<lparr>client_id = ''c1'', name = Some ''Acme Air'', city = Some ''Austin'', state = Some ''TX''\<rparr>"

definition draft_post :: calendar_row where
  "draft_post =
     \<lparr>cal_id = ''p1'', cal_client_id = ''c1'', cal_platform = ''facebook'',
      post_text = ''Stay cool'', image_url = None, scheduled_at = 50, status = ''draft'',
      status_prev = None, qa_score = None, qa_rewritten = None, cal_other = []\<rparr>"

definition second_draft :: calendar_row where
  "second_draft = draft_post\<lparr>cal_id := ''p2'', post_text := ''Filters matter'', scheduled_at := 60\<rparr>"

definition draft_world :: world where
  "draft_world = empty_world\<lparr>clients := [acme], calendar := [draft_post, second_draft]\<rparr>"

definition blank_qa :: qa_dict where
  "blank_qa = example_reply\<lparr>average := Some (34 / 5), verdict := Some ''REWRITE'',
                            improved_version := Some '' ''\<rparr>"

definition padded_qa :: qa_dict where
  "padded_qa = example_reply\<lparr>average := Some (34 / 5), verdict := Some ''REWRITE'',
                             improved_version := Some ''  Fresh air, Austin!  ''\<rparr>"


definition ok_response :: "fields \<Rightarrow> http_response" where
  "ok_response data = \<lparr>status_code = 200, http_error_text = [], json = Inr data\<rparr>"

definition bare_ok_net :: "nat \<Rightarrow> http_request \<Rightarrow> http_result" where
  "bare_ok_net n req = Response (ok_response [])"

definition fb_connection :: connection_row where
  "fb_connection = \<lparr>conn_client_id = ''c1'', conn_platform = ''facebook'', page_id = ''page9'',
                     access_token = ''tok''\<rparr>"

definition fb_post :: calendar_row where
  "fb_post = draft_post\<lparr>status := ''pending''\<rparr>"

definition google_net :: "nat \<Rightarrow> http_request \<Rightarrow> http_result" where
  "google_net n req =
     (if n = 0 then Response (ok_response [(''access_token'', ''short'')])
      else Response (ok_response [(''state'', ''LIVE'')]))"

definition google_environ :: "string \<Rightarrow> string option" where
  "google_environ k =
     (if k = ''GOOGLE_CLIENT_ID'' then Some ''gid''
      else if k = ''GOOGLE_CLIENT_SECRET'' then Some ''gsecret'' else None)"

definition ig_connection :: connection_row where
  "ig_connection = \<lparr>conn_client_id = ''c1'', conn_platform = ''instagram'', page_id = ''ig4'',
                     access_token = ''tok''\<rparr>"

definition pending_post :: "string \<Rightarrow> string \<Rightarrow> string option \<Rightarrow> calendar_row" where
  "pending_post i platform img =
     \<lparr>cal_id = i, cal_client_id = ''c1'', cal_platform = platform,
      post_text = ''Stay cool '' @ i, image_url = img, scheduled_at = 50, status = ''pending'',
      status_prev = Some ''draft'', qa_score = Some 8, qa_rewritten = Some False,
      cal_other = []\<rparr>"

definition scenario_posts :: "calendar_row list" where
  "scenario_posts =
     [pending_post ''fb1'' ''facebook'' None,
      pending_post ''fb2'' ''facebook'' None,
      pending_post ''fb3'' ''facebook'' None,
      pending_post ''ig1'' ''instagram'' (Some ''https://img/1.png''),
      pending_post ''ig2'' ''instagram'' None]"

definition scenario_world :: world where
  "scenario_world =
     empty_world\<lparr>calendar := scenario_posts, connections := [fb_connection, ig_connection]\<rparr>"

definition scenario_net :: "nat \<Rightarrow> http_request \<Rightarrow> http_result" where
  "scenario_net n req =
     (if n = 1 then Transport_failure ''Read timed out.''
      else Response (ok_response [(''id'', ''ext'')]))"

definition noon :: "nat \<Rightarrow> int" where
  "noon n = 100"

definition no_environ :: "string \<Rightarrow> string option" where
  "no_environ k = None"

definition zero_counts :: counts where
  "zero_counts = \<lparr>success = 0, failed = 0, skipped = 0\<rparr>"

definition id_net :: "nat \<Rightarrow> http_request \<Rightarrow> http_result" where
  "id_net n req = Response (ok_response [(''id'', ''page9_77'')])"

definition fb_world :: world where
  "fb_world = empty_world\<lparr>calendar := [fb_post], connections := [fb_connection]\<rparr>"



section \<open>Rounding\<close>


lemma py_round1_near: "\<bar>py_round1 x - x\<bar> \<le> 1 / 20"
proof -
  define t where "t = x * 10"
  define f where "f = \<lfloor>t\<rfloor>"
  define d where "d = t - of_int f"
  have d0: "0 \<le> d" and d1: "d < 1" unfolding d_def f_def by linarith+
  have x: "(of_int f + d) / 10 = x" unfolding d_def t_def by simp
  have r: "py_round1 x = of_int (if d < 1 / 2 then f else if 1 / 2 < d then f + 1
                 else if even f then f else f + 1) / 10"
    unfolding py_round1_def Let_def d_def f_def t_def by simp
  have "\<bar>of_int (if d < 1 / 2 then f else if 1 / 2 < d then f + 1
                 else if even f then f else f + 1) / 10 - (of_int f + d) / 10\<bar> \<le> 1 / 20"
    using d0 d1 by (auto simp: field_simps abs_if)
  then show ?thesis unfolding r x .
qed




section \<open>The quality gate\<close>





lemma qa_attempt_keys:
  assumes "qa_attempt json_loads reply = Inr qa"
  shows "scores qa \<noteq> None \<and> average qa \<noteq> None \<and> verdict qa \<noteq> None \<and>
         issues qa \<noteq> None \<and> improved_version qa \<noteq> None"
  using assms unfolding qa_attempt_def
  by (auto simp: Let_def split: sum.splits if_splits option.splits)

lemma llm_calls_append [simp]:
  "llm_calls (w\<lparr>effects := effects w @ es\<rparr>) = llm_calls w + length (filter is_llm es)"
  by (simp add: llm_calls_def)

lemma llm_calls_snoc:
  "llm_calls (w\<lparr>effects := effects w @ [Llm_post req]\<rparr>) = Suc (llm_calls w)"
  by (simp add: llm_calls_def)

lemma call_claude_qa_from_keys:
  "call_claude_qa_from llm json_loads req retries left w = (Inr qa, w') \<Longrightarrow>
   scores qa \<noteq> None \<and> average qa \<noteq> None \<and> verdict qa \<noteq> None \<and>
   issues qa \<noteq> None \<and> improved_version qa \<noteq> None"
proof (induction left arbitrary: w)
  case 0
  then show ?case
    by (auto simp: Let_def split: sum.splits dest: qa_attempt_keys)
next
  case (Suc left)
  show ?case
  proof (cases "qa_attempt json_loads (llm (llm_calls w) req)")
    case (Inl exc)
    with Suc.prems have
      "call_claude_qa_from llm json_loads req retries left (w\<lparr>effects := effects w @ [Llm_post req]\<rparr>) = (Inr qa, w')"
      by (simp add: Let_def)
    then show ?thesis by (rule Suc.IH)
  next
    case (Inr r)
    with Suc.prems have "r = qa" by (simp add: Let_def)
    with Inr show ?thesis using qa_attempt_keys by blast
  qed
qed

lemma call_claude_qa_from_frame:
  "call_claude_qa_from llm json_loads req retries left w = (r, w') \<Longrightarrow>
   \<exists>n. 0 < n \<and> n \<le> Suc left \<and> w' = w\<lparr>effects := effects w @ replicate n (Llm_post req)\<rparr>"
proof (induction left arbitrary: w)
  case 0
  then have "w' = w\<lparr>effects := effects w @ replicate 1 (Llm_post req)\<rparr>"
    by (auto simp: Let_def split: sum.splits)
  then show ?case by (intro exI [of _ 1]) simp
next
  case (Suc left)
  show ?case
  proof (cases "qa_attempt json_loads (llm (llm_calls w) req)")
    case (Inl exc)
    let ?w1 = "w\<lparr>effects := effects w @ [Llm_post req]\<rparr>"
    from Inl Suc.prems have
      "call_claude_qa_from llm json_loads req retries left ?w1 = (r, w')"
      by (simp add: Let_def)
    from Suc.IH [OF this] obtain n where n: "0 < n" "n \<le> Suc left"
      and w': "w' = ?w1\<lparr>effects := effects ?w1 @ replicate n (Llm_post req)\<rparr>" by blast
    from w' have "w' = w\<lparr>effects := effects w @ replicate (Suc n) (Llm_post req)\<rparr>"
      by simp
    with n show ?thesis by (intro exI [of _ "Suc n"]) simp
  next
    case (Inr qa)
    with Suc.prems have "w' = w\<lparr>effects := effects w @ replicate 1 (Llm_post req)\<rparr>"
      by (simp add: Let_def)
    then show ?thesis by (intro exI [of _ 1]) simp
  qed
qed

lemma call_claude_qa_from_calls:
  "llm_calls w = llm_calls v \<Longrightarrow>
   fst (call_claude_qa_from llm json_loads req retries left w) =
   fst (call_claude_qa_from llm json_loads req retries left v) \<and>
   llm_calls (snd (call_claude_qa_from llm json_loads req retries left w)) =
   llm_calls (snd (call_claude_qa_from llm json_loads req retries left v))"
proof (induction left arbitrary: w v)
  case 0
  then show ?case by (simp add: Let_def split: sum.splits)
next
  case (Suc left)
  have "llm_calls (w\<lparr>effects := effects w @ [Llm_post req]\<rparr>) =
        llm_calls (v\<lparr>effects := effects v @ [Llm_post req]\<rparr>)"
    using Suc.prems by simp
  from Suc.IH [OF this] Suc.prems show ?case
    by (simp add: Let_def split: sum.splits)
qed



lemma call_claude_qa_frame:
  assumes "call_claude_qa llm json_loads req retries w = (r, w')"
  shows "\<exists>es. w' = w\<lparr>effects := effects w @ es\<rparr> \<and> list_all is_llm es"
proof -
  from assms obtain n where "w' = w\<lparr>effects := effects w @ replicate n (Llm_post req)\<rparr>"
    unfolding call_claude_qa_def using call_claude_qa_from_frame by blast
  moreover have "list_all is_llm (replicate n (Llm_post req))"
    by (simp add: list_all_iff)
  ultimately show ?thesis by blast
qed

lemma call_claude_qa_keys:
  assumes "call_claude_qa llm json_loads req retries w = (Inr qa, w')"
  shows "\<exists>sc avg vd. scores qa = Some sc \<and> average qa = Some avg \<and> verdict qa = Some vd"
  using call_claude_qa_from_keys [OF assms [unfolded call_claude_qa_def]] by auto

lemma py_strip_Nil [simp]: "py_strip [] = []"
  by (simp add: py_strip_def)

lemma apply_qa_result_dry:
  assumes "verdict qa = Some vd" and "scores qa = Some sc"
  shows "apply_qa_result post qa True w = Inr w"
  using assms unfolding apply_qa_result_def
  by (cases "improved_version qa") (simp_all add: Let_def)

lemma apply_qa_result_dry_frame:
  "apply_qa_result post qa True w = Inr w' \<Longrightarrow> w' = w"
  unfolding apply_qa_result_def
  by (auto simp: Let_def split: option.splits if_splits sum.splits)

lemma apply_qa_result_wet:
  assumes "verdict qa = Some vd" and "scores qa = Some sc" and "average qa = Some avg"
  shows "apply_qa_result post qa False w =
    Inr (let improved = py_strip (case improved_version qa of None \<Rightarrow> [] | Some t \<Rightarrow> t);
             rewritten = (vd = ''REWRITE'' \<and> improved \<noteq> [])
         in insert_qa_log
              \<lparr>log_client_id = cal_client_id post,
               log_calendar_id = cal_id post,
               log_platform = cal_platform post,
               score_hook = map_of sc ''hook_strength'',
               score_local = map_of sc ''local_specificity'',
               score_value = map_of sc ''value_delivery'',
               score_cta = map_of sc ''cta_clarity'',
               score_platform = map_of sc ''platform_fit'',
               score_authenticity = map_of sc ''authenticity'',
               score_average = avg,
               log_verdict = vd,
               log_issues = (case issues qa of None \<Rightarrow> [] | Some l \<Rightarrow> l),
               was_rewritten = rewritten\<rparr>
              (update_calendar
                 \<lparr>upd_status = Some ''pending'', upd_status_prev = Some ''draft'',
                  upd_qa_score = Some avg, upd_qa_rewritten = Some rewritten,
                  upd_post_text = (if rewritten then Some improved else None)\<rparr>
                 (cal_id post) w))"
  using assms unfolding apply_qa_result_def
  by (cases "improved_version qa") (simp_all add: Let_def)

lemma llm_calls_update_calendar [simp]: "llm_calls (update_calendar u i w) = llm_calls w"
  by (simp add: llm_calls_def update_calendar_def)

lemma llm_calls_insert_qa_log [simp]: "llm_calls (insert_qa_log row w) = llm_calls w"
  by (simp add: llm_calls_def insert_qa_log_def)

lemma apply_qa_result_wet_calls:
  assumes "verdict qa = Some vd" and "scores qa = Some sc" and "average qa = Some avg"
  shows "\<exists>w'. apply_qa_result post qa False w = Inr w' \<and> llm_calls w' = llm_calls w"
  unfolding apply_qa_result_wet [OF assms] by (simp add: Let_def)


lemma review_loop_dry_frame:
  "review_loop llm json_loads client rubric True ps st w = (r, w') \<Longrightarrow>
   \<exists>es. w' = w\<lparr>effects := effects w @ es\<rparr> \<and> list_all is_llm es"
proof (induction ps arbitrary: st w)
  case Nil
  then have "w' = w\<lparr>effects := effects w @ []\<rparr>" by simp
  then show ?case by (intro exI [of _ "[]"]) simp
next
  case (Cons post rest)
  obtain r1 w1 where c: "call_claude_qa llm json_loads (build_qa_prompt post client rubric) 2 w = (r1, w1)"
    by (cases "call_claude_qa llm json_loads (build_qa_prompt post client rubric) 2 w")
  from call_claude_qa_frame [OF c] obtain es1 where
    w1: "w1 = w\<lparr>effects := effects w @ es1\<rparr>" and es1: "list_all is_llm es1" by blast
  have "\<exists>st1. review_loop llm json_loads client rubric True rest st1 w1 = (r, w')"
  proof (cases r1)
    case (Inl exc)
    with c Cons.prems show ?thesis by auto
  next
    case (Inr qa)
    with c obtain sc avg vd where k: "scores qa = Some sc" "average qa = Some avg" "verdict qa = Some vd"
      using call_claude_qa_keys by blast
    show ?thesis using c Inr k Cons.prems apply_qa_result_dry [OF k(3) k(1)]
      by (auto simp: Let_def)
  qed
  then obtain st1 where "review_loop llm json_loads client rubric True rest st1 w1 = (r, w')" ..
  from Cons.IH [OF this] obtain es2 where
    w': "w' = w1\<lparr>effects := effects w1 @ es2\<rparr>" and es2: "list_all is_llm es2" by blast
  from w' w1 have "w' = w\<lparr>effects := effects w @ (es1 @ es2)\<rparr>" by simp
  moreover from es1 es2 have "list_all is_llm (es1 @ es2)" by simp
  ultimately show ?case by blast
qed

lemma review_loop_dry_wet:
  "llm_calls wd = llm_calls ww \<Longrightarrow>
   fst (review_loop llm json_loads client rubric True ps st wd) =
   fst (review_loop llm json_loads client rubric False ps st ww)"
proof (induction ps arbitrary: st wd ww)
  case Nil
  show ?case by simp
next
  case (Cons post rest)
  let ?req = "build_qa_prompt post client rubric"
  obtain rd wd1 where cd: "call_claude_qa llm json_loads ?req 2 wd = (rd, wd1)"
    by (cases "call_claude_qa llm json_loads ?req 2 wd")
  obtain rw ww1 where cw: "call_claude_qa llm json_loads ?req 2 ww = (rw, ww1)"
    by (cases "call_claude_qa llm json_loads ?req 2 ww")
  from call_claude_qa_from_calls [OF Cons.prems, of llm json_loads ?req 2 2] cd cw
  have eq: "rw = rd" and calls: "llm_calls wd1 = llm_calls ww1"
    unfolding call_claude_qa_def by simp_all
  note cw = cw [unfolded eq]
  show ?case
  proof (cases rd)
    case (Inl exc)
    with cd cw Cons.IH [OF calls] show ?thesis by simp
  next
    case (Inr qa)
    with cd obtain sc avg vd where k: "scores qa = Some sc" "average qa = Some avg" "verdict qa = Some vd"
      using call_claude_qa_keys by blast
    from apply_qa_result_wet_calls [OF k(3) k(1) k(2)] obtain ww2 where
      aw: "apply_qa_result post qa False ww1 = Inr ww2" and c2: "llm_calls ww2 = llm_calls ww1"
      by blast
    have ad: "apply_qa_result post qa True wd1 = Inr wd1"
      by (rule apply_qa_result_dry [OF k(3) k(1)])
    from calls c2 have "llm_calls wd1 = llm_calls ww2" by simp
    from Cons.IH [OF this] show ?thesis
      using cd cw Inr k aw ad by (simp add: Let_def)
  qed
qed

text \<open>
  C7, as stated, fails: an improved text that is not empty but blank (one space) comes with
  the verdict REWRITE, and the post keeps its text, with \<open>qa_rewritten\<close> false.
\<close>

theorem apply_qa_result_blank_rewrite_counterexample:
  "verdict blank_qa = Some ''REWRITE'' \<and> improved_version blank_qa = Some '' '' \<and>
   map qa_rewritten (calendar_after (apply_qa_result draft_post blank_qa False draft_world)) =
     [Some False, None] \<and>
   map post_text (calendar_after (apply_qa_result draft_post blank_qa False draft_world)) =
     [''Stay cool'', ''Filters matter'']"
  by (simp add: blank_qa_def example_reply_def apply_qa_result_def calendar_after_def
      draft_world_def empty_world_def draft_post_def second_draft_def py_strip_def py_isspace_def
      update_calendar_def insert_qa_log_def apply_update_def Let_def)

text \<open>
  C7, amended. Outside dry-run mode, for a scored reply: every calendar row with the id of
  the post gets status pending, previous status draft, the average of the reply as its
  score, and \<open>qa_rewritten\<close> true exactly when the verdict is REWRITE and the improved text,
  stripped of surrounding white space, is not empty; its text is then replaced by the
  stripped improved text, and is kept otherwise. No other row changes.
\<close>

theorem apply_qa_result_rewrite_rule:
  assumes "verdict qa = Some vd" and "scores qa = Some sc" and "average qa = Some avg"
  shows "\<exists>w'. apply_qa_result post qa False w = Inr w' \<and>
     calendar w' =
       map (\<lambda>r. if cal_id r = cal_id post
                then (let improved = py_strip (case improved_version qa of None \<Rightarrow> [] | Some t \<Rightarrow> t);
                          rewritten = (vd = ''REWRITE'' \<and> improved \<noteq> [])
                      in r\<lparr>status := ''pending'', status_prev := Some ''draft'',
                           qa_score := Some avg, qa_rewritten := Some rewritten,
                           post_text := (if rewritten then improved else post_text r)\<rparr>)
                else r) (calendar w)"
  unfolding apply_qa_result_wet [OF assms]
  by (simp add: Let_def insert_qa_log_def update_calendar_def apply_update_def)

theorem apply_qa_result_rewrite_rule_witness:
  "map post_text (calendar_after (apply_qa_result draft_post padded_qa False draft_world)) =
     [''Fresh air, Austin!'', ''Filters matter''] \<and>
   map qa_rewritten (calendar_after (apply_qa_result draft_post padded_qa False draft_world)) =
     [Some True, None] \<and>
   map status (calendar_after (apply_qa_result draft_post padded_qa False draft_world)) =
     [''pending'', ''draft''] \<and>
   map qa_score (calendar_after (apply_qa_result draft_post padded_qa False draft_world)) =
     [Some (34 / 5), None]"
proof -
  have s: "py_strip ''  Fresh air, Austin!  '' = ''Fresh air, Austin!''"
    by (simp add: py_strip_def py_isspace_def)
  from apply_qa_result_rewrite_rule [of padded_qa "''REWRITE''" _ "34 / 5" draft_post draft_world]
  obtain w' where "apply_qa_result draft_post padded_qa False draft_world = Inr w'"
    and "calendar w' =
       map (\<lambda>r. if cal_id r = cal_id draft_post
                then (let improved = py_strip (case improved_version padded_qa of None \<Rightarrow> [] | Some t \<Rightarrow> t);
                          rewritten = (''REWRITE'' = ''REWRITE'' \<and> improved \<noteq> [])
                      in r\<lparr>status := ''pending'', status_prev := Some ''draft'',
                           qa_score := Some (34 / 5), qa_rewritten := Some rewritten,
                           post_text := (if rewritten then improved else post_text r)\<rparr>)
                else r) (calendar draft_world)"
    by (auto simp: padded_qa_def example_reply_def)
  then show ?thesis
    by (simp add: calendar_after_def padded_qa_def example_reply_def s draft_world_def
        empty_world_def draft_post_def second_draft_def Let_def)
qed



text \<open>
  C9. In dry-run mode \<^verbatim>\<open>apply_qa_result\<close> returns the world it was given; a whole run of
  \<^verbatim>\<open>main\<close> leaves every table as it was and adds only calls of the scoring model to what
  happened; and it reports the same results as the run that commits.
\<close>

theorem dry_run_commits_nothing:
  "(case apply_qa_result post qa True w of Inl exc \<Rightarrow> True | Inr w' \<Rightarrow> w' = w) \<and>
   (\<exists>es. snd (main llm json_loads month_start rubric cid year mon True w) =
            w\<lparr>effects := effects w @ es\<rparr> \<and> list_all is_llm es) \<and>
   fst (main llm json_loads month_start rubric cid year mon True w) =
   fst (main llm json_loads month_start rubric cid year mon False w)"
proof (intro conjI)
  show "case apply_qa_result post qa True w of Inl exc \<Rightarrow> True | Inr w' \<Rightarrow> w' = w"
    using apply_qa_result_dry_frame by (auto split: sum.splits)
next
  have nil: "w = w\<lparr>effects := effects w @ []\<rparr> \<and> list_all is_llm []" by simp
  show "\<exists>es. snd (main llm json_loads month_start rubric cid year mon True w) =
            w\<lparr>effects := effects w @ es\<rparr> \<and> list_all is_llm es"
  proof (cases "get_client_record w cid")
    case (Inl exc)
    then show ?thesis unfolding main_def using nil by (auto intro: exI [of _ "[]"])
  next
    case (Inr client)
    show ?thesis
    proof (cases "get_draft_posts month_start w cid year mon = []")
      case True
      with Inr show ?thesis unfolding main_def using nil by (auto intro: exI [of _ "[]"])
    next
      case False
      obtain r w' where l: "review_loop llm json_loads client rubric True
          (get_draft_posts month_start w cid year mon) initial_stats w = (r, w')"
        by (cases "review_loop llm json_loads client rubric True
          (get_draft_posts month_start w cid year mon) initial_stats w")
      from review_loop_dry_frame [OF l] Inr False l show ?thesis
        unfolding main_def by (simp add: Let_def)
    qed
  qed
next
  show "fst (main llm json_loads month_start rubric cid year mon True w) =
        fst (main llm json_loads month_start rubric cid year mon False w)"
    unfolding main_def
    by (auto simp: Let_def review_loop_dry_wet split: sum.splits)
qed

section \<open>The platform adapters\<close>

lemma http_calls_snoc [simp]:
  "http_calls (w\<lparr>effects := effects w @ [Http_post req]\<rparr>) = Suc (http_calls w)"
  by (simp add: http_calls_def)

lemma checked_json_ok:
  assumes "status_code r < 400" and "json r = Inr data"
  shows "checked_json r = Inr data"
  using assms by (simp add: checked_json_def raise_for_status_def)

lemma requests_post_response:
  assumes "net (http_calls w) req = Response r"
  shows "requests_post net req w = (Inr r, w\<lparr>effects := effects w @ [Http_post req]\<rparr>)"
  using assms by (simp add: requests_post_def Let_def)

text \<open>
  C5, as stated, fails: a 200 response whose body has neither \<^verbatim>\<open>post_id\<close> nor \<^verbatim>\<open>id\<close>
  makes the Facebook adapter return the text "unknown"; no error is raised.
\<close>

theorem post_facebook_unknown_counterexample:
  "fst (post_facebook bare_ok_net fb_post fb_connection empty_world) = Inr ''unknown''"
  by (simp add: post_facebook_def bare_ok_net_def ok_response_def fb_post_def draft_post_def
      requests_post_def checked_json_def raise_for_status_def dict_get_def Let_def)

text \<open>
  C5, amended. For a 2xx response with a JSON body, the Facebook adapter returns the
  \<^verbatim>\<open>post_id\<close> field when it is there and not empty, otherwise the \<^verbatim>\<open>id\<close> field when it is
  there, otherwise the text "unknown"; it raises nothing.
\<close>

theorem post_facebook_success_id:
  assumes "\<And>req. net (http_calls w) req = Response r"
    and "200 \<le> status_code r" and "status_code r < 300"
    and "json r = Inr data"
  shows "fst (post_facebook net post connection w) =
     Inr (case map_of data ''post_id'' of
            None \<Rightarrow> (case map_of data ''id'' of None \<Rightarrow> ''unknown'' | Some i \<Rightarrow> i)
          | Some p \<Rightarrow>
              if p \<noteq> [] then p
              else (case map_of data ''id'' of None \<Rightarrow> ''unknown'' | Some i \<Rightarrow> i))"
proof -
  have c: "checked_json r = Inr data"
    using assms(3,4) by (intro checked_json_ok) simp_all
  show ?thesis
    unfolding post_facebook_def
    by (simp add: Let_def requests_post_def assms(1) c dict_get_def
        split: option.splits)
qed

theorem post_facebook_success_id_witness:
  "fst (post_facebook (\<lambda>n req. Response (ok_response [(''id'', ''page9_77'')]))
         fb_post fb_connection empty_world) = Inr ''page9_77'' \<and>
   fst (post_facebook (\<lambda>n req. Response (ok_response [(''id'', ''55''), (''post_id'', ''page9_55'')]))
         fb_post fb_connection empty_world) = Inr ''page9_55''"
  using post_facebook_success_id [of "\<lambda>n req. Response (ok_response [(''id'', ''page9_77'')])"
      empty_world "ok_response [(''id'', ''page9_77'')]" "[(''id'', ''page9_77'')]" fb_post fb_connection]
    post_facebook_success_id [of "\<lambda>n req. Response (ok_response [(''id'', ''55''), (''post_id'', ''page9_55'')])"
      empty_world "ok_response [(''id'', ''55''), (''post_id'', ''page9_55'')]"
      "[(''id'', ''55''), (''post_id'', ''page9_55'')]" fb_post fb_connection]
  by (simp add: ok_response_def)

text \<open>
  C6. For a post with no image (the column null, or empty), the Instagram adapter raises
  the error "Instagram posts require an image_url." and returns the world as it was given:
  no request is made, neither for the media container nor for its publication.
\<close>

theorem post_instagram_requires_image:
  assumes "\<not> truthy (image_url post)"
  shows "post_instagram net post connection w =
           (Inl (ValueError ''Instagram posts require an image_url.''), w) \<and>
         str_exc (ValueError ''Instagram posts require an image_url.'') =
           ''Instagram posts require an image_url.''"
  using assms unfolding post_instagram_def
  by (cases "image_url post") (simp_all add: Let_def)

theorem post_instagram_requires_image_witness:
  "\<not> truthy (image_url fb_post) \<and>
   post_instagram bare_ok_net fb_post fb_connection empty_world =
     (Inl (ValueError ''Instagram posts require an image_url.''), empty_world) \<and>
   filter is_http (effects (snd (post_instagram bare_ok_net fb_post fb_connection empty_world))) = []"
  using post_instagram_requires_image [of fb_post bare_ok_net fb_connection empty_world]
  by (simp add: fb_post_def draft_post_def empty_world_def)

text \<open>
  C10. When the token exchange succeeds and the local-post call gets a 2xx response whose
  JSON body has no \<^verbatim>\<open>name\<close> field, the Google Business adapter returns the text "unknown"
  as the external id and raises nothing.
\<close>

theorem post_google_business_unknown_fallback:
  assumes "environ ''GOOGLE_CLIENT_ID'' = Some google_id"
    and "environ ''GOOGLE_CLIENT_SECRET'' = Some google_secret"
    and "\<And>req. net (http_calls w) req = Response r1"
    and "status_code r1 < 400" and "json r1 = Inr data1"
    and "map_of data1 ''access_token'' = Some token"
    and "\<And>req. net (Suc (http_calls w)) req = Response r2"
    and "200 \<le> status_code r2" and "status_code r2 < 300" and "json r2 = Inr data2"
    and "map_of data2 ''name'' = None"
  shows "fst (post_google_business net environ post connection w) = Inr ''unknown''"
proof -
  have c1: "checked_json r1 = Inr data1"
    using assms(4,5) by (rule checked_json_ok)
  have c2: "checked_json r2 = Inr data2"
    using assms(9,10) by (intro checked_json_ok) simp_all
  have t: "refresh_google_token net environ (access_token connection) w =
      (Inr token, w\<lparr>effects := effects w @
         [Http_post \<lparr>url = ''https://oauth2.googleapis.com/token'',
                     body = [(''grant_type'', ''refresh_token''),
                             (''refresh_token'', access_token connection),
                             (''client_id'', google_id),
                             (''client_secret'', google_secret)],
                     bearer = None\<rparr>]\<rparr>)"
    unfolding refresh_google_token_def
    by (simp add: assms(1,2,6) requests_post_def assms(3) c1)
  show ?thesis
    unfolding post_google_business_def
    by (simp add: Let_def t requests_post_def assms(7,11) c2 dict_get_def)
qed

theorem post_google_business_unknown_fallback_witness:
  "fst (post_google_business google_net google_environ fb_post fb_connection empty_world) =
     Inr ''unknown''"
  using post_google_business_unknown_fallback [of google_environ "''gid''" "''gsecret''" google_net
      empty_world "ok_response [(''access_token'', ''short'')]" "[(''access_token'', ''short'')]"
      "''short''" "ok_response [(''state'', ''LIVE'')]" "[(''state'', ''LIVE'')]"
      fb_post fb_connection]
  by (simp add: google_environ_def google_net_def ok_response_def http_calls_def empty_world_def)

section \<open>The dispatcher\<close>

lemma http_only_refl [simp]: "http_only w w"
  by (simp add: http_only_def)

lemma http_only_trans: "http_only a b \<Longrightarrow> http_only b c \<Longrightarrow> http_only a c"
proof -
  assume ab: "http_only a b" and bc: "http_only b c"
  from ab have b: "b = a\<lparr>effects := effects b\<rparr>"
    and tb: "take (length (effects a)) (effects b) = effects a"
    and hb: "list_all is_http (drop (length (effects a)) (effects b))"
    by (simp_all add: http_only_def)
  from bc have c: "c = b\<lparr>effects := effects c\<rparr>"
    and tc: "take (length (effects b)) (effects c) = effects b"
    and hc: "list_all is_http (drop (length (effects b)) (effects c))"
    by (simp_all add: http_only_def)
  define eb where "eb = drop (length (effects a)) (effects b)"
  define ec where "ec = drop (length (effects b)) (effects c)"
  have B: "effects b = effects a @ eb"
    unfolding eb_def using tb by (metis append_take_drop_id)
  have C: "effects c = effects b @ ec"
    unfolding ec_def using tc by (metis append_take_drop_id)
  have 1: "c = a\<lparr>effects := effects c\<rparr>"
    by (subst c, subst b) simp
  have 2: "take (length (effects a)) (effects c) = effects a"
    by (simp add: C B)
  have 3: "list_all is_http (drop (length (effects a)) (effects c))"
    using hb hc by (simp add: C B eb_def [symmetric] ec_def [symmetric])
  from 1 2 3 show ?thesis unfolding http_only_def by blast
qed

lemma http_onlyD:
  assumes "http_only w w'"
  shows "\<exists>es. w' = w\<lparr>effects := effects w @ es\<rparr> \<and> list_all is_http es"
proof -
  from assms have 1: "w' = w\<lparr>effects := effects w'\<rparr>"
    and 2: "take (length (effects w)) (effects w') = effects w"
    and 3: "list_all is_http (drop (length (effects w)) (effects w'))"
    by (simp_all add: http_only_def)
  have "effects w' = effects w @ drop (length (effects w)) (effects w')"
    using 2 by (metis append_take_drop_id)
  with 1 have "w' = w\<lparr>effects := effects w @ drop (length (effects w)) (effects w')\<rparr>" by simp
  with 3 show ?thesis by blast
qed

lemma requests_post_http_only: "requests_post net req w = (r, w') \<Longrightarrow> http_only w w'"
  by (auto simp: requests_post_def Let_def http_only_def split: http_result.splits)

lemma post_facebook_http_only: "post_facebook net post connection w = (r, w') \<Longrightarrow> http_only w w'"
  unfolding post_facebook_def Let_def
  by (auto split: prod.splits sum.splits dest: requests_post_http_only)

lemma post_instagram_http_only: "post_instagram net post connection w = (r, w') \<Longrightarrow> http_only w w'"
  unfolding post_instagram_def Let_def
  by (auto split: prod.splits sum.splits option.splits if_splits
      dest!: requests_post_http_only intro: http_only_trans)

lemma refresh_google_token_http_only:
  "refresh_google_token net environ t w = (r, w') \<Longrightarrow> http_only w w'"
  unfolding refresh_google_token_def Let_def
  by (auto split: prod.splits sum.splits option.splits dest!: requests_post_http_only)

lemma post_google_business_http_only:
  "post_google_business net environ post connection w = (r, w') \<Longrightarrow> http_only w w'"
  unfolding post_google_business_def Let_def
  by (auto split: prod.splits sum.splits
      dest!: requests_post_http_only refresh_google_token_http_only intro: http_only_trans)

lemma handler_http_only:
  assumes "map_of (PLATFORM_HANDLERS net environ) platform = Some handler"
    and "handler post connection w = (r, w')"
  shows "http_only w w'"
  using assms unfolding PLATFORM_HANDLERS_def
  by (auto split: if_splits dest: post_facebook_http_only post_instagram_http_only
      post_google_business_http_only)

lemma run_loop_Cons:
  "run_loop net environ clock (p # rest) c w =
     (case dispatch_one net environ clock p c w of
        (c', w') \<Rightarrow> run_loop net environ clock rest c' w')"
  unfolding dispatch_one_def
  by (simp add: Let_def split: option.splits prod.splits sum.splits)

lemma dispatch_one_shape:
  assumes d: "dispatch_one net environ clock p c w = (c', w')"
  shows "(map_of (PLATFORM_HANDLERS net environ) (cal_platform p) = None \<and> w' = w \<and>
          c' = c\<lparr>skipped := skipped c + 1\<rparr>) \<or>
         (\<exists>handler wh s row.
            map_of (PLATFORM_HANDLERS net environ) (cal_platform p) = Some handler \<and>
            http_only w wh \<and>
            w' = insert_post row
                   (update_calendar (no_update\<lparr>upd_status := Some s\<rparr>) (cal_id p) wh) \<and>
            calendar_id row = cal_id p \<and> pub_client_id row = cal_client_id p \<and>
            pub_platform row = cal_platform p \<and>
            ((s = ''posted'' \<and> c' = c\<lparr>success := success c + 1\<rparr> \<and>
              posted_at row = Some (clock (length (effects wh))) \<and> error_message row = None \<and>
              (\<exists>connection ext.
                 get_connection w (cal_client_id p) (cal_platform p) = Some connection \<and>
                 handler p connection w = (Inr ext, wh) \<and> external_post_id row = Some ext)) \<or>
             (s = ''failed'' \<and> c' = c\<lparr>failed := failed c + 1\<rparr> \<and>
              external_post_id row = None \<and> posted_at row = None \<and>
              (\<exists>err. error_message row = Some (take 2000 err) \<and>
                 ((get_connection w (cal_client_id p) (cal_platform p) = None \<and> wh = w \<and>
                   err = ''No '' @ cal_platform p @ '' connection found for client '' @
                         cal_client_id p) \<or>
                  (\<exists>connection exc.
                     get_connection w (cal_client_id p) (cal_platform p) = Some connection \<and>
                     handler p connection w = (Inl exc, wh) \<and> err = str_exc exc))))))"
proof (cases "map_of (PLATFORM_HANDLERS net environ) (cal_platform p)")
  case None
  with d show ?thesis unfolding dispatch_one_def by (simp add: Let_def)
next
  case (Some handler)
  show ?thesis
  proof (cases "get_connection w (cal_client_id p) (cal_platform p)")
    case None
    let ?err = "''No '' @ cal_platform p @ '' connection found for client '' @ cal_client_id p"
    let ?row = "\<lparr>calendar_id = cal_id p, pub_client_id = cal_client_id p,
                 pub_platform = cal_platform p, external_post_id = None, posted_at = None,
                 error_message = Some (take 2000 ?err)\<rparr>"
    from d Some None have w': "w' = insert_post ?row
         (update_calendar (no_update\<lparr>upd_status := Some ''failed''\<rparr>) (cal_id p) w)"
      and c': "c' = c\<lparr>failed := failed c + 1\<rparr>"
      unfolding dispatch_one_def by (simp_all add: Let_def mark_failed_def)
    show ?thesis
      apply (rule disjI2)
      apply (rule exI [of _ handler], rule exI [of _ w], rule exI [of _ "''failed''"],
             rule exI [of _ ?row])
      using Some None w' c' by simp
  next
    case (Some connection) note conn = this
    obtain res wh where h: "handler p connection w = (res, wh)"
      by (cases "handler p connection w")
    have ho: "http_only w wh"
      using handler_http_only [OF \<open>map_of (PLATFORM_HANDLERS net environ) (cal_platform p) = Some handler\<close> h] .
    show ?thesis
    proof (cases res)
      case (Inr ext)
      let ?row = "\<lparr>calendar_id = cal_id p, pub_client_id = cal_client_id p,
                 pub_platform = cal_platform p, external_post_id = Some ext,
                 posted_at = Some (clock (length (effects wh))), error_message = None\<rparr>"
      from d \<open>map_of (PLATFORM_HANDLERS net environ) (cal_platform p) = Some handler\<close> conn h Inr
      have w': "w' = insert_post ?row
           (update_calendar (no_update\<lparr>upd_status := Some ''posted''\<rparr>) (cal_id p) wh)"
        and c': "c' = c\<lparr>success := success c + 1\<rparr>"
        unfolding dispatch_one_def by (simp_all add: Let_def mark_posted_def)
      show ?thesis
        apply (rule disjI2)
        apply (rule exI [of _ handler], rule exI [of _ wh], rule exI [of _ "''posted''"],
               rule exI [of _ ?row])
        using \<open>map_of (PLATFORM_HANDLERS net environ) (cal_platform p) = Some handler\<close>
          conn h Inr ho w' c' by simp
    next
      case (Inl exc)
      let ?row = "\<lparr>calendar_id = cal_id p, pub_client_id = cal_client_id p,
                 pub_platform = cal_platform p, external_post_id = None, posted_at = None,
                 error_message = Some (take 2000 (str_exc exc))\<rparr>"
      from d \<open>map_of (PLATFORM_HANDLERS net environ) (cal_platform p) = Some handler\<close> conn h Inl
      have w': "w' = insert_post ?row
           (update_calendar (no_update\<lparr>upd_status := Some ''failed''\<rparr>) (cal_id p) wh)"
        and c': "c' = c\<lparr>failed := failed c + 1\<rparr>"
        unfolding dispatch_one_def by (simp_all add: Let_def mark_failed_def)
      show ?thesis
        apply (rule disjI2)
        apply (rule exI [of _ handler], rule exI [of _ wh], rule exI [of _ "''failed''"],
               rule exI [of _ ?row])
        using \<open>map_of (PLATFORM_HANDLERS net environ) (cal_platform p) = Some handler\<close>
          conn h Inl ho w' c' by auto
    qed
  qed
qed

lemma apply_update_status:
  "apply_update (no_update\<lparr>upd_status := Some s\<rparr>) r = r\<lparr>status := s\<rparr>"
  by (simp add: apply_update_def no_update_def)

lemma dispatch_one_world:
  assumes d: "dispatch_one net environ clock p c w = (c', w')"
  shows "(map_of (PLATFORM_HANDLERS net environ) (cal_platform p) = None \<and> w' = w) \<or>
         (\<exists>s es row.
            map_of (PLATFORM_HANDLERS net environ) (cal_platform p) \<noteq> None \<and>
            (s = ''posted'' \<or> s = ''failed'') \<and> list_all is_http es \<and>
            w' = w\<lparr>calendar := map (\<lambda>r. if cal_id r = cal_id p then r\<lparr>status := s\<rparr> else r)
                                  (calendar w),
                   posts := posts w @ [row],
                   effects := effects w @ es @
                     [Calendar_update (no_update\<lparr>upd_status := Some s\<rparr>) (cal_id p),
                      Posts_insert row]\<rparr>)"
proof -
  from dispatch_one_shape [OF d] show ?thesis
  proof
    assume "map_of (PLATFORM_HANDLERS net environ) (cal_platform p) = None \<and> w' = w \<and>
          c' = c\<lparr>skipped := skipped c + 1\<rparr>"
    then show ?thesis by simp
  next
    assume "\<exists>handler wh s row.
            map_of (PLATFORM_HANDLERS net environ) (cal_platform p) = Some handler \<and>
            http_only w wh \<and>
            w' = insert_post row
                   (update_calendar (no_update\<lparr>upd_status := Some s\<rparr>) (cal_id p) wh) \<and>
            calendar_id row = cal_id p \<and> pub_client_id row = cal_client_id p \<and>
            pub_platform row = cal_platform p \<and>
            ((s = ''posted'' \<and> c' = c\<lparr>success := success c + 1\<rparr> \<and>
              posted_at row = Some (clock (length (effects wh))) \<and> error_message row = None \<and>
              (\<exists>connection ext.
                 get_connection w (cal_client_id p) (cal_platform p) = Some connection \<and>
                 handler p connection w = (Inr ext, wh) \<and> external_post_id row = Some ext)) \<or>
             (s = ''failed'' \<and> c' = c\<lparr>failed := failed c + 1\<rparr> \<and>
              external_post_id row = None \<and> posted_at row = None \<and>
              (\<exists>err. error_message row = Some (take 2000 err) \<and>
                 ((get_connection w (cal_client_id p) (cal_platform p) = None \<and> wh = w \<and>
                   err = ''No '' @ cal_platform p @ '' connection found for client '' @
                         cal_client_id p) \<or>
                  (\<exists>connection exc.
                     get_connection w (cal_client_id p) (cal_platform p) = Some connection \<and>
                     handler p connection w = (Inl exc, wh) \<and> err = str_exc exc)))))"
    then obtain handler wh s row where
      h: "map_of (PLATFORM_HANDLERS net environ) (cal_platform p) = Some handler"
      and ho: "http_only w wh"
      and w': "w' = insert_post row
                   (update_calendar (no_update\<lparr>upd_status := Some s\<rparr>) (cal_id p) wh)"
      and s: "s = ''posted'' \<or> s = ''failed''"
      by blast
    from http_onlyD [OF ho] obtain es where
      wh: "wh = w\<lparr>effects := effects w @ es\<rparr>" and es: "list_all is_http es" by blast
    have "w' = w\<lparr>calendar := map (\<lambda>r. if cal_id r = cal_id p then r\<lparr>status := s\<rparr> else r)
                                  (calendar w),
                   posts := posts w @ [row],
                   effects := effects w @ es @
                     [Calendar_update (no_update\<lparr>upd_status := Some s\<rparr>) (cal_id p),
                      Posts_insert row]\<rparr>"
      unfolding w' wh by (simp add: insert_post_def update_calendar_def apply_update_status)
    with h s es show ?thesis by blast
  qed
qed

lemma dispatch_one_counts:
  assumes "dispatch_one net environ clock p c w = (c', w')"
  shows "success c' + failed c' + skipped c' = success c + failed c + skipped c + 1"
  using dispatch_one_shape [OF assms] by auto

lemma run_loop_append:
  "run_loop net environ clock (ps @ qs) c w =
     (case run_loop net environ clock ps c w of
        (c1, w1) \<Rightarrow> run_loop net environ clock qs c1 w1)"
proof (induction ps arbitrary: c w)
  case Nil
  show ?case by simp
next
  case (Cons p ps)
  show ?case
    by (simp only: append_Cons run_loop_Cons Cons.IH split: prod.splits) simp
qed

lemma run_loop_counts:
  "run_loop net environ clock ps c w = (c', w') \<Longrightarrow>
   success c' + failed c' + skipped c' = success c + failed c + skipped c + length ps"
proof (induction ps arbitrary: c w)
  case Nil
  then show ?case by simp
next
  case (Cons p ps)
  obtain c1 w1 where d: "dispatch_one net environ clock p c w = (c1, w1)"
    by (cases "dispatch_one net environ clock p c w")
  with Cons.prems have "run_loop net environ clock ps c1 w1 = (c', w')"
    by (simp add: run_loop_Cons del: run_loop.simps)
  from Cons.IH [OF this] dispatch_one_counts [OF d] show ?case by simp
qed

lemma dispatch_one_tables:
  assumes "dispatch_one net environ clock p c w = (c', w')"
  shows "connections w' = connections w \<and> clients w' = clients w \<and> qa_log w' = qa_log w \<and>
         map cal_id (calendar w') = map cal_id (calendar w)"
proof -
  have "map cal_id (map (\<lambda>r. if cal_id r = i then r\<lparr>status := s\<rparr> else r) xs) = map cal_id xs"
    for s i and xs :: "calendar_row list"
    by (induction xs) auto
  with dispatch_one_world [OF assms] show ?thesis by auto
qed

lemma dispatch_one_other_rows:
  assumes "dispatch_one net environ clock p c w = (c', w')" and "i \<noteq> cal_id p"
  shows "filter (\<lambda>r. cal_id r = i) (calendar w') = filter (\<lambda>r. cal_id r = i) (calendar w)"
proof -
  have "filter (\<lambda>r. cal_id r = i) (map (\<lambda>r. if cal_id r = cal_id p then r\<lparr>status := s\<rparr> else r) xs)
        = filter (\<lambda>r. cal_id r = i) xs" for s and xs :: "calendar_row list"
    using assms(2) by (induction xs) auto
  with dispatch_one_world [OF assms(1)] show ?thesis by auto
qed

lemma dispatch_one_own_rows:
  assumes "dispatch_one net environ clock p c w = (c', w')"
    and "map_of (PLATFORM_HANDLERS net environ) (cal_platform p) = Some handler"
  shows "\<exists>s. (s = ''posted'' \<or> s = ''failed'') \<and>
     map status (filter (\<lambda>r. cal_id r = cal_id p) (calendar w')) =
     replicate (length (filter (\<lambda>r. cal_id r = cal_id p) (calendar w))) s"
proof -
  have m: "map status (filter (\<lambda>r. cal_id r = i)
              (map (\<lambda>r. if cal_id r = i then r\<lparr>status := s\<rparr> else r) xs))
        = replicate (length (filter (\<lambda>r. cal_id r = i) xs)) s"
    for s i and xs :: "calendar_row list"
    by (induction xs) auto
  from dispatch_one_world [OF assms(1)] assms(2) obtain s es row where
    s: "s = ''posted'' \<or> s = ''failed''"
    and w': "w' = w\<lparr>calendar := map (\<lambda>r. if cal_id r = cal_id p then r\<lparr>status := s\<rparr> else r)
                                  (calendar w),
                   posts := posts w @ [row],
                   effects := effects w @ es @
                     [Calendar_update (no_update\<lparr>upd_status := Some s\<rparr>) (cal_id p),
                      Posts_insert row]\<rparr>"
    by auto
  have "map status (filter (\<lambda>r. cal_id r = cal_id p) (calendar w')) =
     replicate (length (filter (\<lambda>r. cal_id r = cal_id p) (calendar w))) s"
    unfolding w' by (simp add: m)
  with s show ?thesis by blast
qed

lemma run_loop_tables:
  "run_loop net environ clock ps c w = (c', w') \<Longrightarrow>
   connections w' = connections w \<and> map cal_id (calendar w') = map cal_id (calendar w)"
proof (induction ps arbitrary: c w)
  case Nil
  then show ?case by simp
next
  case (Cons p ps)
  obtain c1 w1 where d: "dispatch_one net environ clock p c w = (c1, w1)"
    by (cases "dispatch_one net environ clock p c w")
  with Cons.prems have "run_loop net environ clock ps c1 w1 = (c', w')"
    by (simp add: run_loop_Cons del: run_loop.simps)
  from Cons.IH [OF this] dispatch_one_tables [OF d] show ?case by simp
qed

lemma run_loop_other_rows:
  "run_loop net environ clock ps c w = (c', w') \<Longrightarrow> i \<notin> cal_id ` set ps \<Longrightarrow>
   filter (\<lambda>r. cal_id r = i) (calendar w') = filter (\<lambda>r. cal_id r = i) (calendar w)"
proof (induction ps arbitrary: c w)
  case Nil
  then show ?case by simp
next
  case (Cons p ps)
  obtain c1 w1 where d: "dispatch_one net environ clock p c w = (c1, w1)"
    by (cases "dispatch_one net environ clock p c w")
  with Cons.prems have r: "run_loop net environ clock ps c1 w1 = (c', w')"
    by (simp add: run_loop_Cons del: run_loop.simps)
  from Cons.prems have i: "i \<noteq> cal_id p" "i \<notin> cal_id ` set ps" by auto
  from Cons.IH [OF r i(2)] dispatch_one_other_rows [OF d i(1)] show ?case by simp
qed

lemma filter_id_length:
  fixes xs ys :: "calendar_row list"
  assumes "map cal_id xs = map cal_id ys"
  shows "length (filter (\<lambda>r. cal_id r = i) xs) = length (filter (\<lambda>r. cal_id r = i) ys)"
proof -
  have c: "length (filter (\<lambda>r. cal_id r = i) zs) = count_list (map cal_id zs) i"
    for zs :: "calendar_row list"
    by (induction zs) auto
  have "length (filter (\<lambda>r. cal_id r = i) xs) = count_list (map cal_id xs) i" by (rule c)
  also have "\<dots> = count_list (map cal_id ys) i" by (simp only: assms)
  also have "\<dots> = length (filter (\<lambda>r. cal_id r = i) ys)" by (rule c [symmetric])
  finally show ?thesis .
qed

lemma status_after_update:
  fixes xs :: "calendar_row list"
  shows "map status (filter (\<lambda>r. cal_id r = i)
              (map (\<lambda>r. if cal_id r = i then apply_update (no_update\<lparr>upd_status := Some s\<rparr>) r else r) xs))
        = replicate (length (filter (\<lambda>r. cal_id r = i) xs)) s"
  by (induction xs) (auto simp: apply_update_status)

lemma http_only_calendar: "http_only w w' \<Longrightarrow> calendar w' = calendar w"
  using http_onlyD by fastforce

text \<open>
  C2. A batch \<open>ps @ p # qs\<close>, whatever the adapters of the posts in \<open>ps\<close> and \<open>qs\<close> do
  (return or raise): when the turn of \<open>p\<close> comes, the loop goes on with \<open>qs\<close> whether the
  adapter of \<open>p\<close> returns or raises; if no later post has the id of \<open>p\<close>, the calendar
  rows of \<open>p\<close> end as posted when its own adapter returned and as failed when it raised;
  and the three counts that are reported add up to the number of posts of the batch.
\<close>

theorem dispatcher_isolates_adapter_failures:
  assumes before: "run_loop net environ clock ps c w = (c1, w1)"
    and handler: "map_of (PLATFORM_HANDLERS net environ) (cal_platform p) = Some handler"
    and conn: "get_connection w1 (cal_client_id p) (cal_platform p) = Some connection"
    and own: "handler p connection w1 = (res, w2)"
    and later: "cal_id p \<notin> cal_id ` set qs"
  shows "run_loop net environ clock (ps @ p # qs) c w =
           (case res of
              Inr ext \<Rightarrow>
                run_loop net environ clock qs (c1\<lparr>success := success c1 + 1\<rparr>)
                  (mark_posted clock (cal_id p) (cal_client_id p) (cal_platform p) ext w2)
            | Inl exc \<Rightarrow>
                run_loop net environ clock qs (c1\<lparr>failed := failed c1 + 1\<rparr>)
                  (mark_failed (cal_id p) (cal_client_id p) (cal_platform p) (str_exc exc) w2)) \<and>
         map status (filter (\<lambda>r. cal_id r = cal_id p)
                       (calendar (snd (run_loop net environ clock (ps @ p # qs) c w)))) =
           replicate (length (filter (\<lambda>r. cal_id r = cal_id p) (calendar w)))
             (case res of Inr ext \<Rightarrow> ''posted'' | Inl exc \<Rightarrow> ''failed'') \<and>
         success (fst (run_loop net environ clock (ps @ p # qs) c w)) +
         failed (fst (run_loop net environ clock (ps @ p # qs) c w)) +
         skipped (fst (run_loop net environ clock (ps @ p # qs) c w)) =
           success c + failed c + skipped c + length (ps @ p # qs)"
proof (intro conjI)
  let ?next = "case res of
              Inr ext \<Rightarrow>
                (c1\<lparr>success := success c1 + 1\<rparr>,
                  mark_posted clock (cal_id p) (cal_client_id p) (cal_platform p) ext w2)
            | Inl exc \<Rightarrow>
                (c1\<lparr>failed := failed c1 + 1\<rparr>,
                  mark_failed (cal_id p) (cal_client_id p) (cal_platform p) (str_exc exc) w2)"
  have step: "run_loop net environ clock (p # qs) c1 w1 =
      run_loop net environ clock qs (fst ?next) (snd ?next)"
    using handler conn own by (simp add: Let_def split: sum.splits)
  have all: "run_loop net environ clock (ps @ p # qs) c w =
      run_loop net environ clock qs (fst ?next) (snd ?next)"
  proof -
    have "run_loop net environ clock (ps @ p # qs) c w = run_loop net environ clock (p # qs) c1 w1"
      by (simp add: run_loop_append before del: run_loop.simps)
    then show ?thesis by (simp only: step)
  qed
  show "run_loop net environ clock (ps @ p # qs) c w =
           (case res of
              Inr ext \<Rightarrow>
                run_loop net environ clock qs (c1\<lparr>success := success c1 + 1\<rparr>)
                  (mark_posted clock (cal_id p) (cal_client_id p) (cal_platform p) ext w2)
            | Inl exc \<Rightarrow>
                run_loop net environ clock qs (c1\<lparr>failed := failed c1 + 1\<rparr>)
                  (mark_failed (cal_id p) (cal_client_id p) (cal_platform p) (str_exc exc) w2))"
    unfolding all by (simp split: sum.splits)
  obtain cf wf where fin: "run_loop net environ clock qs (fst ?next) (snd ?next) = (cf, wf)"
    by (cases "run_loop net environ clock qs (fst ?next) (snd ?next)")
  have cal2: "calendar w2 = calendar w1"
    using handler_http_only [OF handler own] by (rule http_only_calendar)
  have own_rows: "map status (filter (\<lambda>r. cal_id r = cal_id p) (calendar (snd ?next))) =
      replicate (length (filter (\<lambda>r. cal_id r = cal_id p) (calendar w1)))
        (case res of Inr ext \<Rightarrow> ''posted'' | Inl exc \<Rightarrow> ''failed'')"
    by (cases res)
       (simp_all add: mark_posted_def mark_failed_def insert_post_def update_calendar_def
          Let_def cal2 status_after_update)
  have len: "length (filter (\<lambda>r. cal_id r = cal_id p) (calendar w1)) =
             length (filter (\<lambda>r. cal_id r = cal_id p) (calendar w))"
    using run_loop_tables [OF before] by (intro filter_id_length) simp
  have "filter (\<lambda>r. cal_id r = cal_id p) (calendar wf) =
        filter (\<lambda>r. cal_id r = cal_id p) (calendar (snd ?next))"
    by (rule run_loop_other_rows [OF fin later])
  then show "map status (filter (\<lambda>r. cal_id r = cal_id p)
                       (calendar (snd (run_loop net environ clock (ps @ p # qs) c w)))) =
           replicate (length (filter (\<lambda>r. cal_id r = cal_id p) (calendar w)))
             (case res of Inr ext \<Rightarrow> ''posted'' | Inl exc \<Rightarrow> ''failed'')"
    unfolding all fin using own_rows len by simp
  obtain ca wa where a: "run_loop net environ clock (ps @ p # qs) c w = (ca, wa)"
    by (cases "run_loop net environ clock (ps @ p # qs) c w")
  show "success (fst (run_loop net environ clock (ps @ p # qs) c w)) +
         failed (fst (run_loop net environ clock (ps @ p # qs) c w)) +
         skipped (fst (run_loop net environ clock (ps @ p # qs) c w)) =
           success c + failed c + skipped c + length (ps @ p # qs)"
    unfolding a using run_loop_counts [OF a] by simp
qed

lemmas scenario_defs =
  run_def get_pending_posts_def scenario_world_def scenario_posts_def pending_post_def
  empty_world_def noon_def no_environ_def scenario_net_def ok_response_def
  fb_connection_def ig_connection_def PLATFORM_HANDLERS_def get_connection_def
  post_facebook_def post_instagram_def requests_post_def checked_json_def
  raise_for_status_def dict_get_def mark_posted_def mark_failed_def update_calendar_def
  insert_post_def apply_update_def no_update_def http_calls_def zero_counts_def Let_def
  id_net_def fb_world_def fb_post_def draft_post_def

lemma scenario_run:
  "fst (run scenario_net no_environ noon scenario_world) =
     Some \<lparr>success = 3, failed = 2, skipped = 0\<rparr> \<and>
   map status (calendar (snd (run scenario_net no_environ noon scenario_world))) =
     [''posted'', ''failed'', ''posted'', ''posted'', ''failed'']"
  by (simp add: scenario_defs)

text \<open>
  C4, as stated, fails: after a successful publication the calendar row of the post is the
  row it was with the status posted, and no external id is recorded on it; the id is in
  the row added to the publication log.
\<close>

theorem post_record_carries_no_outcome_counterexample:
  "calendar (snd (run id_net no_environ noon fb_world)) = [fb_post\<lparr>status := ''posted''\<rparr>] \<and>
   map_of (cal_other (fb_post\<lparr>status := ''posted''\<rparr>)) ''external_post_id'' = None \<and>
   map external_post_id (posts (snd (run id_net no_environ noon fb_world))) =
     [Some ''page9_77'']"
  by (simp add: scenario_defs)

text \<open>
  C4, amended. For a post whose platform has an adapter, the dispatcher changes nothing
  but the status of the calendar rows with its id, to posted or failed, and appends one row
  to the publication log, with the id, the client and the platform of the post. With
  posted, the log row has the external id the adapter returned and a time, and no error
  message; with failed, it has the error text cut to 2000 characters (the missing
  connection, or the text of the exception), and neither an external id nor a time.
\<close>

theorem dispatcher_records_one_outcome:
  assumes "map_of (PLATFORM_HANDLERS net environ) (cal_platform post) = Some handler"
  shows "\<exists>s row c' w'.
     run_loop net environ clock (post # rest) c w = run_loop net environ clock rest c' w' \<and>
     posts w' = posts w @ [row] \<and>
     calendar w' =
       map (\<lambda>r. if cal_id r = cal_id post then r\<lparr>status := s\<rparr> else r) (calendar w) \<and>
     calendar_id row = cal_id post \<and> pub_client_id row = cal_client_id post \<and>
     pub_platform row = cal_platform post \<and>
     ((s = ''posted'' \<and> (\<exists>t. posted_at row = Some t) \<and> error_message row = None \<and>
       (\<exists>connection ext wh.
          get_connection w (cal_client_id post) (cal_platform post) = Some connection \<and>
          handler post connection w = (Inr ext, wh) \<and> external_post_id row = Some ext)) \<or>
      (s = ''failed'' \<and> external_post_id row = None \<and> posted_at row = None \<and>
       (\<exists>err. error_message row = Some (take 2000 err) \<and> length (take 2000 err) \<le> 2000 \<and>
          ((get_connection w (cal_client_id post) (cal_platform post) = None \<and>
            err = ''No '' @ cal_platform post @ '' connection found for client '' @
                  cal_client_id post) \<or>
           (\<exists>connection exc wh.
              get_connection w (cal_client_id post) (cal_platform post) = Some connection \<and>
              handler post connection w = (Inl exc, wh) \<and> err = str_exc exc)))))"
proof (cases "get_connection w (cal_client_id post) (cal_platform post)")
  case None
  let ?err = "''No '' @ cal_platform post @ '' connection found for client '' @ cal_client_id post"
  let ?row = "\<lparr>calendar_id = cal_id post, pub_client_id = cal_client_id post,
               pub_platform = cal_platform post, external_post_id = None, posted_at = None,
               error_message = Some (take 2000 ?err)\<rparr>"
  let ?w' = "mark_failed (cal_id post) (cal_client_id post) (cal_platform post) ?err w"
  have step: "run_loop net environ clock (post # rest) c w =
              run_loop net environ clock rest (c\<lparr>failed := failed c + 1\<rparr>) ?w'"
    using assms None by (simp add: Let_def)
  have A: "posts ?w' = posts w @ [?row]"
    by (simp add: mark_failed_def insert_post_def update_calendar_def Let_def)
  have B: "calendar ?w' =
       map (\<lambda>r. if cal_id r = cal_id post then r\<lparr>status := ''failed''\<rparr> else r) (calendar w)"
    by (simp add: mark_failed_def insert_post_def update_calendar_def Let_def apply_update_status)
  have D: "\<exists>err. error_message ?row = Some (take 2000 err) \<and> length (take 2000 err) \<le> 2000 \<and>
          ((get_connection w (cal_client_id post) (cal_platform post) = None \<and>
            err = ''No '' @ cal_platform post @ '' connection found for client '' @
                  cal_client_id post) \<or>
           (\<exists>connection exc wh.
              get_connection w (cal_client_id post) (cal_platform post) = Some connection \<and>
              handler post connection w = (Inl exc, wh) \<and> err = str_exc exc))"
    by (rule exI [of _ ?err]) (simp add: None)
  show ?thesis
    apply (rule exI [of _ "''failed''"], rule exI [of _ ?row],
           rule exI [of _ "c\<lparr>failed := failed c + 1\<rparr>"], rule exI [of _ ?w'])
    apply (intro conjI)
          apply (rule step)
         apply (rule A)
        apply (rule B)
       apply simp
      apply simp
     apply simp
    apply (rule disjI2)
    using D apply simp
    done
next
  case (Some connection)
  obtain res wh where h: "handler post connection w = (res, wh)"
    by (cases "handler post connection w")
  from http_onlyD [OF handler_http_only [OF assms h]] obtain es where
    wh: "wh = w\<lparr>effects := effects w @ es\<rparr>" by blast
  show ?thesis
  proof (cases res)
    case (Inr ext)
    let ?row = "\<lparr>calendar_id = cal_id post, pub_client_id = cal_client_id post,
                 pub_platform = cal_platform post, external_post_id = Some ext,
                 posted_at = Some (clock (length (effects wh))), error_message = None\<rparr>"
    let ?w' = "mark_posted clock (cal_id post) (cal_client_id post) (cal_platform post) ext wh"
    have step: "run_loop net environ clock (post # rest) c w =
                run_loop net environ clock rest (c\<lparr>success := success c + 1\<rparr>) ?w'"
      using assms Some h Inr by (simp add: Let_def)
    have A: "posts ?w' = posts w @ [?row]"
      unfolding wh by (simp add: mark_posted_def insert_post_def update_calendar_def Let_def)
    have B: "calendar ?w' =
       map (\<lambda>r. if cal_id r = cal_id post then r\<lparr>status := ''posted''\<rparr> else r) (calendar w)"
      unfolding wh
      by (simp add: mark_posted_def insert_post_def update_calendar_def Let_def apply_update_status)
    have D: "\<exists>connection ext' wh'.
          get_connection w (cal_client_id post) (cal_platform post) = Some connection \<and>
          handler post connection w = (Inr ext', wh') \<and> external_post_id ?row = Some ext'"
      using Some h Inr by simp
    show ?thesis
      apply (rule exI [of _ "''posted''"], rule exI [of _ ?row],
             rule exI [of _ "c\<lparr>success := success c + 1\<rparr>"], rule exI [of _ ?w'])
      apply (intro conjI)
            apply (rule step)
           apply (rule A)
          apply (rule B)
         apply simp
        apply simp
       apply simp
      apply (rule disjI1)
      using D apply simp
      done
  next
    case (Inl exc)
    let ?row = "\<lparr>calendar_id = cal_id post, pub_client_id = cal_client_id post,
                 pub_platform = cal_platform post, external_post_id = None, posted_at = None,
                 error_message = Some (take 2000 (str_exc exc))\<rparr>"
    let ?w' = "mark_failed (cal_id post) (cal_client_id post) (cal_platform post) (str_exc exc) wh"
    have step: "run_loop net environ clock (post # rest) c w =
                run_loop net environ clock rest (c\<lparr>failed := failed c + 1\<rparr>) ?w'"
      using assms Some h Inl by (simp add: Let_def)
    have A: "posts ?w' = posts w @ [?row]"
      unfolding wh by (simp add: mark_failed_def insert_post_def update_calendar_def Let_def)
    have B: "calendar ?w' =
       map (\<lambda>r. if cal_id r = cal_id post then r\<lparr>status := ''failed''\<rparr> else r) (calendar w)"
      unfolding wh
      by (simp add: mark_failed_def insert_post_def update_calendar_def Let_def apply_update_status)
    have D: "\<exists>err. error_message ?row = Some (take 2000 err) \<and> length (take 2000 err) \<le> 2000 \<and>
          ((get_connection w (cal_client_id post) (cal_platform post) = None \<and>
            err = ''No '' @ cal_platform post @ '' connection found for client '' @
                  cal_client_id post) \<or>
           (\<exists>connection exc wh.
              get_connection w (cal_client_id post) (cal_platform post) = Some connection \<and>
              handler post connection w = (Inl exc, wh) \<and> err = str_exc exc))"
      by (rule exI [of _ "str_exc exc"]) (simp add: Some h Inl)
    show ?thesis
      apply (rule exI [of _ "''failed''"], rule exI [of _ ?row],
             rule exI [of _ "c\<lparr>failed := failed c + 1\<rparr>"], rule exI [of _ ?w'])
      apply (intro conjI)
            apply (rule step)
           apply (rule A)
          apply (rule B)
         apply simp
        apply simp
       apply simp
      apply (rule disjI2)
      using D apply simp
      done
  qed
qed

lemma get_connection_cong:
  "connections w = connections v \<Longrightarrow> get_connection w cid pf = get_connection v cid pf"
  by (simp add: get_connection_def)

theorem dispatcher_isolates_adapter_failures_witness:
  "fst (run scenario_net no_environ noon scenario_world) =
     Some \<lparr>success = 3, failed = 2, skipped = 0\<rparr> \<and>
   map status (calendar (snd (run scenario_net no_environ noon scenario_world))) =
     [''posted'', ''failed'', ''posted'', ''posted'', ''failed''] \<and>
   map error_message (posts (snd (run scenario_net no_environ noon scenario_world))) =
     [None, Some ''Read timed out.'', None, None,
      Some ''Instagram posts require an image_url.''] \<and>
   map status (filter (\<lambda>r. cal_id r = ''fb3'')
     (calendar (snd (run_loop scenario_net no_environ noon scenario_posts zero_counts
        scenario_world)))) = [''posted'']"
proof -
  let ?ps = "[pending_post ''fb1'' ''facebook'' None, pending_post ''fb2'' ''facebook'' None]"
  let ?p = "pending_post ''fb3'' ''facebook'' None"
  let ?qs = "[pending_post ''ig1'' ''instagram'' (Some ''https://img/1.png''),
              pending_post ''ig2'' ''instagram'' None]"
  let ?before = "run_loop scenario_net no_environ noon ?ps zero_counts scenario_world"
  let ?own = "post_facebook scenario_net ?p fb_connection (snd ?before)"
  have split: "?ps @ ?p # ?qs = scenario_posts"
    by (simp add: scenario_posts_def)
  have h1: "?before = (fst ?before, snd ?before)"
    by (rule prod.collapse [symmetric])
  have h2: "map_of (PLATFORM_HANDLERS scenario_net no_environ) (cal_platform ?p) =
            Some (post_facebook scenario_net)"
    by (simp add: PLATFORM_HANDLERS_def pending_post_def)
  have "connections (snd ?before) = connections scenario_world"
    using run_loop_tables [OF h1] by simp
  then have "get_connection (snd ?before) (cal_client_id ?p) (cal_platform ?p) =
             get_connection scenario_world (cal_client_id ?p) (cal_platform ?p)"
    by (rule get_connection_cong)
  also have "\<dots> = Some fb_connection"
    by (simp add: get_connection_def scenario_world_def empty_world_def pending_post_def
        fb_connection_def ig_connection_def)
  finally have h3: "get_connection (snd ?before) (cal_client_id ?p) (cal_platform ?p) =
             Some fb_connection" .
  have h4: "?own = (fst ?own, snd ?own)"
    by (rule prod.collapse [symmetric])
  have h5: "cal_id ?p \<notin> cal_id ` set ?qs"
    by (simp add: pending_post_def)
  note t = dispatcher_isolates_adapter_failures [OF h1 h2 h3 h4 h5, THEN conjunct2, THEN conjunct1]
  have r: "fst ?own = Inr ''ext''"
    by (simp add: scenario_defs)
  have n: "length (filter (\<lambda>r. cal_id r = ''fb3'') (calendar scenario_world)) = 1"
    by (simp add: scenario_world_def scenario_posts_def pending_post_def empty_world_def)
  have i: "cal_id ?p = ''fb3''"
    by (simp add: pending_post_def)
  have own: "map status (filter (\<lambda>r. cal_id r = ''fb3'')
     (calendar (snd (run_loop scenario_net no_environ noon scenario_posts zero_counts
        scenario_world)))) = [''posted'']"
    using t unfolding split r i n by simp
  have "fst (run scenario_net no_environ noon scenario_world) =
     Some \<lparr>success = 3, failed = 2, skipped = 0\<rparr> \<and>
   map status (calendar (snd (run scenario_net no_environ noon scenario_world))) =
     [''posted'', ''failed'', ''posted'', ''posted'', ''failed''] \<and>
   map error_message (posts (snd (run scenario_net no_environ noon scenario_world))) =
     [None, Some ''Read timed out.'', None, None,
      Some ''Instagram posts require an image_url.'']"
    by (simp add: scenario_defs)
  with own show ?thesis by blast
qed

theorem dispatcher_records_one_outcome_witness:
  "posts (snd (run_loop id_net no_environ noon [fb_post] zero_counts fb_world)) =
     [\<lparr>calendar_id = ''p1'', pub_client_id = ''c1'', pub_platform = ''facebook'',
       external_post_id = Some ''page9_77'', posted_at = Some 100, error_message = None\<rparr>] \<and>
   (\<exists>s row.
      posts (snd (run_loop id_net no_environ noon [fb_post] zero_counts fb_world)) =
        posts fb_world @ [row] \<and>
      calendar (snd (run_loop id_net no_environ noon [fb_post] zero_counts fb_world)) =
        map (\<lambda>r. if cal_id r = cal_id fb_post then r\<lparr>status := s\<rparr> else r) (calendar fb_world) \<and>
      calendar_id row = cal_id fb_post \<and>
      ((s = ''posted'' \<and> (\<exists>ext. external_post_id row = Some ext) \<and> error_message row = None) \<or>
       (s = ''failed'' \<and> external_post_id row = None \<and>
        (\<exists>err. error_message row = Some (take 2000 err)))))"
proof
  show "posts (snd (run_loop id_net no_environ noon [fb_post] zero_counts fb_world)) =
     [\<lparr>calendar_id = ''p1'', pub_client_id = ''c1'', pub_platform = ''facebook'',
       external_post_id = Some ''page9_77'', posted_at = Some 100, error_message = None\<rparr>]"
    by (simp add: scenario_defs)
next
  have h: "map_of (PLATFORM_HANDLERS id_net no_environ) (cal_platform fb_post) =
           Some (post_facebook id_net)"
    by (simp add: PLATFORM_HANDLERS_def fb_post_def draft_post_def)
  from dispatcher_records_one_outcome [OF h, of noon "[]" zero_counts fb_world]
  obtain s row c' w' where
    step: "run_loop id_net no_environ noon [fb_post] zero_counts fb_world =
           run_loop id_net no_environ noon [] c' w'"
    and p: "posts w' = posts fb_world @ [row]"
    and cal: "calendar w' =
       map (\<lambda>r. if cal_id r = cal_id fb_post then r\<lparr>status := s\<rparr> else r) (calendar fb_world)"
    and row: "calendar_id row = cal_id fb_post"
    and out: "(s = ''posted'' \<and> (\<exists>t. posted_at row = Some t) \<and> error_message row = None \<and>
       (\<exists>connection ext wh.
          get_connection fb_world (cal_client_id fb_post) (cal_platform fb_post) = Some connection \<and>
          post_facebook id_net fb_post connection fb_world = (Inr ext, wh) \<and>
          external_post_id row = Some ext)) \<or>
      (s = ''failed'' \<and> external_post_id row = None \<and> posted_at row = None \<and>
       (\<exists>err. error_message row = Some (take 2000 err) \<and> length (take 2000 err) \<le> 2000 \<and>
          ((get_connection fb_world (cal_client_id fb_post) (cal_platform fb_post) = None \<and>
            err = ''No '' @ cal_platform fb_post @ '' connection found for client '' @
                  cal_client_id fb_post) \<or>
           (\<exists>connection exc wh.
              get_connection fb_world (cal_client_id fb_post) (cal_platform fb_post) =
                Some connection \<and>
              post_facebook id_net fb_post connection fb_world = (Inl exc, wh) \<and>
              err = str_exc exc))))"
    by blast
  have w': "snd (run_loop id_net no_environ noon [fb_post] zero_counts fb_world) = w'"
    unfolding step by simp
  from out have "(s = ''posted'' \<and> (\<exists>ext. external_post_id row = Some ext) \<and> error_message row = None) \<or>
       (s = ''failed'' \<and> external_post_id row = None \<and>
        (\<exists>err. error_message row = Some (take 2000 err)))"
    by blast
  with p cal row show "\<exists>s row.
      posts (snd (run_loop id_net no_environ noon [fb_post] zero_counts fb_world)) =
        posts fb_world @ [row] \<and>
      calendar (snd (run_loop id_net no_environ noon [fb_post] zero_counts fb_world)) =
        map (\<lambda>r. if cal_id r = cal_id fb_post then r\<lparr>status := s\<rparr> else r) (calendar fb_world) \<and>
      calendar_id row = cal_id fb_post \<and>
      ((s = ''posted'' \<and> (\<exists>ext. external_post_id row = Some ext) \<and> error_message row = None) \<or>
       (s = ''failed'' \<and> external_post_id row = None \<and>
        (\<exists>err. error_message row = Some (take 2000 err))))"
    unfolding w' by blast
qed

section \<open>Running the dispatcher twice\<close>

lemma handlers_registered:
  "(map_of (PLATFORM_HANDLERS net environ) platform = None) =
   (map_of (PLATFORM_HANDLERS net2 environ2) platform = None)"
  by (simp add: PLATFORM_HANDLERS_def)















end
